theory Spec2Isabelle
  imports Complex_Main "HOL-Library.Multiset"
begin

section \<open>Numbers\<close>

text \<open>
  Prices are IEEE doubles in the program. In the scoring of opportunities and in the
  low-price screen they are modelled as exact reals: rounding, overflow and the sign of
  zero are outside the model there. In the trade simulator, where the result decides a
  boolean on the sign of a rounded difference, every operation is rounded to the nearest
  double (section "Rounding"). What decides control flow is inside the model throughout:
  a missing price (NaN or None), the infinities and NaN that numpy produces on a division
  by zero, and the ZeroDivisionError that Python's own float division raises.

  \<open>float64\<close> is a numpy/pandas double: a finite value, an infinity or NaN.
\<close>

datatype float64 = Fin real | PInf | MInf | NaN

fun inf_of_sign :: "real \<Rightarrow> float64" where
  "inf_of_sign s = (if 0 < s then PInf else if s < 0 then MInf else NaN)"

fun fl_neg :: "float64 \<Rightarrow> float64" where
  "fl_neg (Fin a) = Fin (- a)"
| "fl_neg PInf = MInf"
| "fl_neg MInf = PInf"
| "fl_neg NaN = NaN"

fun fl_add :: "float64 \<Rightarrow> float64 \<Rightarrow> float64" where
  "fl_add NaN y = NaN"
| "fl_add x NaN = NaN"
| "fl_add (Fin a) (Fin b) = Fin (a + b)"
| "fl_add PInf MInf = NaN"
| "fl_add MInf PInf = NaN"
| "fl_add PInf y = PInf"
| "fl_add MInf y = MInf"
| "fl_add x PInf = PInf"
| "fl_add x MInf = MInf"

definition fl_sub :: "float64 \<Rightarrow> float64 \<Rightarrow> float64" where
  "fl_sub x y = fl_add x (fl_neg y)"

fun fl_mul :: "float64 \<Rightarrow> float64 \<Rightarrow> float64" where
  "fl_mul NaN y = NaN"
| "fl_mul x NaN = NaN"
| "fl_mul (Fin a) (Fin b) = Fin (a * b)"
| "fl_mul PInf (Fin b) = inf_of_sign b"
| "fl_mul MInf (Fin b) = inf_of_sign (- b)"
| "fl_mul (Fin a) PInf = inf_of_sign a"
| "fl_mul (Fin a) MInf = inf_of_sign (- a)"
| "fl_mul PInf PInf = PInf"
| "fl_mul PInf MInf = MInf"
| "fl_mul MInf PInf = MInf"
| "fl_mul MInf MInf = PInf"

text \<open>numpy division: a zero divisor gives an infinity or NaN (and a warning), never an
  exception.\<close>

fun fl_div :: "float64 \<Rightarrow> float64 \<Rightarrow> float64" where
  "fl_div NaN y = NaN"
| "fl_div x NaN = NaN"
| "fl_div (Fin a) (Fin b) = (if b = 0 then inf_of_sign a else Fin (a / b))"
| "fl_div (Fin a) y = Fin 0"
| "fl_div PInf (Fin b) = (if b < 0 then MInf else PInf)"
| "fl_div MInf (Fin b) = (if b < 0 then PInf else MInf)"
| "fl_div x y = NaN"

fun fl_abs :: "float64 \<Rightarrow> float64" where
  "fl_abs (Fin a) = Fin \<bar>a\<bar>"
| "fl_abs PInf = PInf"
| "fl_abs MInf = PInf"
| "fl_abs NaN = NaN"

text \<open>Comparisons with NaN are false.\<close>

fun fl_less :: "float64 \<Rightarrow> float64 \<Rightarrow> bool" where
  "fl_less NaN y = False"
| "fl_less x NaN = False"
| "fl_less (Fin a) (Fin b) = (a < b)"
| "fl_less x MInf = False"
| "fl_less PInf y = False"
| "fl_less MInf y = True"
| "fl_less x PInf = True"

fun isna :: "float64 \<Rightarrow> bool" where
  "isna NaN = True"
| "isna x = False"

text \<open>\<open>DataFrame.min(axis=1)\<close> and \<open>DataFrame.mean(axis=1)\<close> over two columns; both skip
  NaN.\<close>

definition min_axis1 :: "float64 \<Rightarrow> float64 \<Rightarrow> float64" where
  "min_axis1 x y = (if isna x then y else if isna y then x else if fl_less y x then y else x)"

definition mean_axis1 :: "float64 \<Rightarrow> float64 \<Rightarrow> float64" where
  "mean_axis1 x y =
     (if isna x then y else if isna y then x else fl_div (fl_add x y) (Fin 2))"

subsection \<open>Rounding\<close>

text \<open>IEEE 754 binary64, round to nearest, ties to even: a value is rounded to a multiple of
  the unit in the last place of its binade (53 significant bits, the exponent no lower than
  that of the subnormal numbers), and a result of magnitude \<open>2^1024\<close> or more overflows to
  an infinity. The sign of zero is not modelled.\<close>

definition round_half_even :: "real \<Rightarrow> int" where
  "round_half_even q =
     (let f = \<lfloor>q\<rfloor>
      in if q - of_int f < 1 / 2 then f
         else if 1 / 2 < q - of_int f then f + 1
         else if even f then f else f + 1)"

definition double_exponent :: "real \<Rightarrow> int" where
  "double_exponent x = max \<lfloor>log 2 \<bar>x\<bar>\<rfloor> (- 1022)"

definition round_double :: "real \<Rightarrow> float64" where
  "round_double x =
     (if x = 0 then Fin 0
      else
        let ulp = 2 powi (double_exponent x - 52);
            r = of_int (round_half_even (x / ulp)) * ulp
        in if 2 ^ 1024 \<le> \<bar>r\<bar> then (if 0 < x then PInf else MInf) else Fin r)"

fun fl_round :: "float64 \<Rightarrow> float64" where
  "fl_round (Fin a) = round_double a"
| "fl_round x = x"

text \<open>numpy's \<open>/\<close>, \<open>*\<close> and \<open>-\<close> on \<open>float64\<close>: the exact result, rounded.\<close>

definition np_divide :: "float64 \<Rightarrow> float64 \<Rightarrow> float64" where
  "np_divide x y = fl_round (fl_div x y)"

definition np_multiply :: "float64 \<Rightarrow> float64 \<Rightarrow> float64" where
  "np_multiply x y = fl_round (fl_mul x y)"

definition np_subtract :: "float64 \<Rightarrow> float64 \<Rightarrow> float64" where
  "np_subtract x y = fl_round (fl_sub x y)"

section \<open>Python values, errors and rows\<close>

datatype py_error = KeyError | IndexError | TypeError | ZeroDivisionError | OtherError

text \<open>A value stored under a \<open>"<market>_price"\<close> key of a row dictionary: a float or
  \<open>None\<close>.\<close>

datatype pyval = PyNone | PyFloat real

record symbol_row =
  Symbol :: string

text \<open>A row as the fetchers build it: \<open>{'Symbol': crypto, '<market>_price': ...}\<close>. The map is
  keyed by the market; a market with no entry is a key the dictionary does not have.\<close>

record price_row = symbol_row +
  prices :: "string \<rightharpoonup> pyval"

text \<open>A price table is the \<open>DataFrame\<close> built from the list of rows; the empty list is the
  empty \<open>DataFrame\<close>.\<close>

type_synonym price_table = "price_row list"

section \<open>Configuration (config/config.py)\<close>

definition TOP_CRYPTOS :: "string list" where
  "TOP_CRYPTOS = [''BTC'', ''ETH'', ''SOL'', ''BNB'', ''XRP'',
                  ''ADA'', ''DOGE'', ''DOT'', ''LINK'', ''LTC'']"

definition MARKETS :: "string list" where
  "MARKETS = [''USDT'', ''BTC'']"

section \<open>The exchange fetchers (data/binance_fetcher.py, data/kraken_fetcher.py)\<close>

text \<open>The loop over the markets of \<open>BinanceFetcher.get_top_crypto_prices\<close>, for one
  crypto; \<open>row\<close> is the dictionary built so far. \<open>1 / all_prices[reverse_symbol]\<close> is Python
  float division and raises on zero.\<close>

fun binance_row ::
  "(string \<rightharpoonup> real) \<Rightarrow> string \<Rightarrow> string list \<Rightarrow> (string \<rightharpoonup> pyval)
     \<Rightarrow> py_error + (string \<rightharpoonup> pyval)" where
  "binance_row all_prices crypto [] row = Inr row"
| "binance_row all_prices crypto (m # ms) row =
     (if crypto = m then binance_row all_prices crypto ms row
      else case all_prices (crypto @ m) of
          Some p \<Rightarrow> binance_row all_prices crypto ms (row(m \<mapsto> PyFloat p))
        | None \<Rightarrow>
            (case all_prices (m @ crypto) of
               Some q \<Rightarrow>
                 if q = 0 then Inl ZeroDivisionError
                 else binance_row all_prices crypto ms (row(m \<mapsto> PyFloat (1 / q)))
             | None \<Rightarrow> binance_row all_prices crypto ms (row(m \<mapsto> PyNone))))"

fun binance_data ::
  "(string \<rightharpoonup> real) \<Rightarrow> string list \<Rightarrow> string list \<Rightarrow> py_error + price_row list" where
  "binance_data all_prices [] markets = Inr []"
| "binance_data all_prices (crypto # cs) markets =
     (case binance_row all_prices crypto markets Map.empty of
        Inl e \<Rightarrow> Inl e
      | Inr row \<Rightarrow>
          (case binance_data all_prices cs markets of
             Inl e \<Rightarrow> Inl e
           | Inr rows \<Rightarrow> Inr (\<lparr>Symbol = crypto, prices = row\<rparr> # rows)))"

text \<open>\<open>ticker_prices\<close> is what \<open>get_ticker_prices\<close> gives: the dictionary (empty after a
  \<open>BinanceAPIException\<close>), or an exception that escapes it. Any exception ends in the
  empty \<open>DataFrame\<close>.\<close>

definition binance_get_top_crypto_prices ::
  "py_error + (string \<rightharpoonup> real) \<Rightarrow> string list \<Rightarrow> string list \<Rightarrow> price_table" where
  "binance_get_top_crypto_prices ticker_prices cryptos markets =
     (case ticker_prices of
        Inl e \<Rightarrow> []
      | Inr all_prices \<Rightarrow>
          (case binance_data all_prices cryptos markets of
             Inl e \<Rightarrow> []
           | Inr rows \<Rightarrow> rows))"

text \<open>Kraken: pairs are written with a slash, and \<open>XBT\<close> is tried for \<open>BTC\<close>.\<close>

definition kraken_entry :: "(string \<rightharpoonup> real) \<Rightarrow> string \<Rightarrow> string \<Rightarrow> py_error + pyval" where
  "kraken_entry all_prices crypto m =
     (case all_prices (crypto @ ''/'' @ m) of
        Some p \<Rightarrow> Inr (PyFloat p)
      | None \<Rightarrow>
          (case all_prices (m @ ''/'' @ crypto) of
             Some q \<Rightarrow> if q = 0 then Inl ZeroDivisionError else Inr (PyFloat (1 / q))
           | None \<Rightarrow>
               (let alt_crypto = (if crypto = ''BTC'' then ''XBT'' else crypto);
                    alt_market = (if m = ''BTC'' then ''XBT'' else m)
                in case all_prices (alt_crypto @ ''/'' @ alt_market) of
                     Some p \<Rightarrow> Inr (PyFloat p)
                   | None \<Rightarrow>
                       (case all_prices (alt_market @ ''/'' @ alt_crypto) of
                          Some q \<Rightarrow>
                            if q = 0 then Inl ZeroDivisionError else Inr (PyFloat (1 / q))
                        | None \<Rightarrow> Inr PyNone))))"

fun kraken_row ::
  "(string \<rightharpoonup> real) \<Rightarrow> string \<Rightarrow> string list \<Rightarrow> (string \<rightharpoonup> pyval)
     \<Rightarrow> py_error + (string \<rightharpoonup> pyval)" where
  "kraken_row all_prices crypto [] row = Inr row"
| "kraken_row all_prices crypto (m # ms) row =
     (if crypto = m then kraken_row all_prices crypto ms row
      else case kraken_entry all_prices crypto m of
          Inl e \<Rightarrow> Inl e
        | Inr v \<Rightarrow> kraken_row all_prices crypto ms (row(m \<mapsto> v)))"

fun kraken_data ::
  "(string \<rightharpoonup> real) \<Rightarrow> string list \<Rightarrow> string list \<Rightarrow> py_error + price_row list" where
  "kraken_data all_prices [] markets = Inr []"
| "kraken_data all_prices (crypto # cs) markets =
     (case kraken_row all_prices crypto markets Map.empty of
        Inl e \<Rightarrow> Inl e
      | Inr row \<Rightarrow>
          (case kraken_data all_prices cs markets of
             Inl e \<Rightarrow> Inl e
           | Inr rows \<Rightarrow> Inr (\<lparr>Symbol = crypto, prices = row\<rparr> # rows)))"

text \<open>Kraken's \<open>get_ticker_prices\<close> catches every exception, so it always gives a
  dictionary.\<close>

definition kraken_get_top_crypto_prices ::
  "(string \<rightharpoonup> real) \<Rightarrow> string list \<Rightarrow> string list \<Rightarrow> price_table" where
  "kraken_get_top_crypto_prices all_prices cryptos markets =
     (case kraken_data all_prices cryptos markets of
        Inl e \<Rightarrow> []
      | Inr rows \<Rightarrow> rows)"

text \<open>What a computation reads from outside: the two exchanges' ticker dictionaries and the
  clock.\<close>

record exchanges =
  binance_tickers :: "py_error + (string \<rightharpoonup> real)"
  kraken_tickers :: "string \<rightharpoonup> real"
  now :: real

definition fetch_all_prices :: "exchanges \<Rightarrow> price_table \<times> price_table" where
  "fetch_all_prices env =
     (binance_get_top_crypto_prices (binance_tickers env) TOP_CRYPTOS MARKETS,
      kraken_get_top_crypto_prices (kraken_tickers env) TOP_CRYPTOS MARKETS)"

section \<open>The arbitrage calculator (utils/arbitrage_calculator.py)\<close>

subsection \<open>Joining the two tables\<close>

text \<open>A row of \<open>pd.merge(binance_prices, kraken_prices, on='Symbol', suffixes=('_binance',
  '_kraken'))\<close>: an inner join, in the order of the left table. The fetchers give one row
  per configured symbol.\<close>

record merged_row = symbol_row +
  prices_binance :: "string \<rightharpoonup> pyval"
  prices_kraken :: "string \<rightharpoonup> pyval"

definition pd_merge :: "price_table \<Rightarrow> price_table \<Rightarrow> merged_row list" where
  "pd_merge binance_prices kraken_prices =
     concat (map (\<lambda>l. map (\<lambda>r. \<lparr>Symbol = Symbol l, prices_binance = prices l,
                                    prices_kraken = prices r\<rparr>)
                          (filter (\<lambda>r. Symbol r = Symbol l) kraken_prices))
                 binance_prices)"

text \<open>A cell of the \<open>DataFrame\<close> read as a number: a missing key and \<open>None\<close> are both
  missing values (\<open>pd.isna\<close> is true of them).\<close>

fun present :: "pyval option \<Rightarrow> real option" where
  "present (Some (PyFloat v)) = Some v"
| "present c = None"

fun to_float64 :: "pyval option \<Rightarrow> float64" where
  "to_float64 (Some (PyFloat v)) = Fin v"
| "to_float64 c = NaN"

subsection \<open>Opportunities\<close>

record ranked_row = symbol_row +
  Price_Diff_Pct :: float64

record opportunity = ranked_row +
  Market :: string
  Buy_Exchange :: string
  Sell_Exchange :: string
  Buy_Price :: real
  Sell_Price :: real
  Timestamp :: real

text \<open>The body of the inner loop once both prices are present (lines 79 to 108): what it
  appends to \<open>opportunities\<close>. The values of a row from \<open>iterrows\<close> are Python floats, so the
  division raises on a zero divisor.\<close>

definition score ::
  "real \<Rightarrow> string \<Rightarrow> string \<Rightarrow> real \<Rightarrow> real \<Rightarrow> py_error + opportunity list" where
  "score t symbol m binance_price kraken_price =
     (if min binance_price kraken_price = 0 then Inl ZeroDivisionError
      else
        let price_diff_pct =
              \<bar>binance_price - kraken_price\<bar> / min binance_price kraken_price * 100
        in if binance_price < kraken_price then
             (if 0 < price_diff_pct then
                Inr [\<lparr>Symbol = symbol, Price_Diff_Pct = Fin price_diff_pct, Market = m,
                      Buy_Exchange = ''Binance'', Sell_Exchange = ''Kraken'',
                      Buy_Price = binance_price, Sell_Price = kraken_price, Timestamp = t\<rparr>]
              else Inr [])
           else
             (if 0 < price_diff_pct then
                Inr [\<lparr>Symbol = symbol, Price_Diff_Pct = Fin price_diff_pct, Market = m,
                      Buy_Exchange = ''Kraken'', Sell_Exchange = ''Binance'',
                      Buy_Price = kraken_price, Sell_Price = binance_price, Timestamp = t\<rparr>]
              else Inr []))"

text \<open>\<open>for market in MARKETS\<close>, for one row: the records appended, or the exception.\<close>

fun row_opportunities ::
  "real \<Rightarrow> merged_row \<Rightarrow> string list \<Rightarrow> py_error + opportunity list" where
  "row_opportunities t row [] = Inr []"
| "row_opportunities t row (m # ms) =
     (if Symbol row = m then row_opportunities t row ms
      else case (present (prices_binance row m), present (prices_kraken row m)) of
          (Some binance_price, Some kraken_price) \<Rightarrow>
            (case score t (Symbol row) m binance_price kraken_price of
               Inl e \<Rightarrow> Inl e
             | Inr new \<Rightarrow>
                 (case row_opportunities t row ms of
                    Inl e \<Rightarrow> Inl e
                  | Inr rest \<Rightarrow> Inr (new @ rest)))
        | _ \<Rightarrow> row_opportunities t row ms)"

text \<open>\<open>for _, row in merged_df.iterrows()\<close>.\<close>

fun scan_rows ::
  "real \<Rightarrow> merged_row list \<Rightarrow> string list \<Rightarrow> py_error + opportunity list" where
  "scan_rows t [] markets = Inr []"
| "scan_rows t (row # rows) markets =
     (case row_opportunities t row markets of
        Inl e \<Rightarrow> Inl e
      | Inr new \<Rightarrow>
          (case scan_rows t rows markets of
             Inl e \<Rightarrow> Inl e
           | Inr rest \<Rightarrow> Inr (new @ rest)))"

subsection \<open>Sorting\<close>

text \<open>\<open>sort_values(by='Price_Diff_Pct', ascending=False)\<close> is pandas' code, called with its
  default \<open>kind='quicksort'\<close>. The calculator takes it as a parameter. What pandas promises
  of it is \<open>sort_values_descending\<close>: the rows are the same, in descending order of the key
  with NaN last. pandas promises a stable order of ties for \<open>kind='mergesort'\<close> and
  \<open>kind='stable'\<close> only.\<close>

fun precedes :: "float64 \<Rightarrow> float64 \<Rightarrow> bool" where
  "precedes x NaN = True"
| "precedes NaN y = False"
| "precedes x y = (\<not> fl_less x y)"

definition sort_values_descending :: "('a \<Rightarrow> float64) \<Rightarrow> ('a list \<Rightarrow> 'a list) \<Rightarrow> bool" where
  "sort_values_descending key srt =
     (\<forall>xs. mset (srt xs) = mset xs \<and>
           sorted_wrt (\<lambda>a b. precedes (key a) (key b)) (srt xs))"

text \<open>A sort that meets the promise, used to run the calculator on examples: insertion
  sort.\<close>

fun insert_desc :: "('a \<Rightarrow> float64) \<Rightarrow> 'a \<Rightarrow> 'a list \<Rightarrow> 'a list" where
  "insert_desc key x [] = [x]"
| "insert_desc key x (y # ys) =
     (if precedes (key x) (key y) then x # y # ys else y # insert_desc key x ys)"

fun stable_sort_desc :: "('a \<Rightarrow> float64) \<Rightarrow> 'a list \<Rightarrow> 'a list" where
  "stable_sort_desc key [] = []"
| "stable_sort_desc key (x # xs) = insert_desc key x (stable_sort_desc key xs)"

subsection \<open>The calculator's state\<close>

record calculator =
  last_opportunity :: "opportunity option"

definition new_calculator :: calculator where
  "new_calculator = \<lparr>last_opportunity = None\<rparr>"

text \<open>The empty dictionary that \<open>get_last_opportunity\<close> returns when nothing is stored is
  \<open>None\<close>.\<close>

definition get_last_opportunity :: "calculator \<Rightarrow> opportunity option" where
  "get_last_opportunity self = last_opportunity self"

subsection \<open>calculate\_arbitrage\_opportunities\<close>

text \<open>The method after \<open>fetch_all_prices\<close>: the returned \<open>DataFrame\<close> (its rows) and the
  calculator afterwards. An exception in the \<open>try\<close> block returns the empty \<open>DataFrame\<close>
  and stores nothing.\<close>

definition opportunities_of_prices ::
  "(opportunity list \<Rightarrow> opportunity list) \<Rightarrow> real \<Rightarrow> calculator \<Rightarrow> price_table \<Rightarrow> price_table
     \<Rightarrow> opportunity list \<times> calculator" where
  "opportunities_of_prices sort_values t self binance_prices kraken_prices =
     (if binance_prices = [] \<or> kraken_prices = [] then ([], self)
      else case scan_rows t (pd_merge binance_prices kraken_prices) MARKETS of
          Inl e \<Rightarrow> ([], self)
        | Inr opportunities \<Rightarrow>
            if opportunities = [] then ([], self)
            else (case sort_values opportunities of
                    [] \<Rightarrow> ([], self)
                  | best # others \<Rightarrow>
                      (best # others, self\<lparr>last_opportunity := Some best\<rparr>)))"

definition calculate_arbitrage_opportunities ::
  "(opportunity list \<Rightarrow> opportunity list) \<Rightarrow> exchanges \<Rightarrow> calculator
     \<Rightarrow> opportunity list \<times> calculator" where
  "calculate_arbitrage_opportunities sort_values env self =
     (case fetch_all_prices env of
        (binance_prices, kraken_prices) \<Rightarrow>
          opportunities_of_prices sort_values (now env) self binance_prices kraken_prices)"

subsection \<open>Columns of a price table\<close>

text \<open>\<open>pd.DataFrame(data)\<close> has a column for every key some row has. A column holding a
  float, or a NaN filled in for a row without the key, is a \<open>float64\<close> column, where
  \<open>None\<close> becomes NaN; a column of \<open>None\<close> only keeps \<open>dtype=object\<close> and its \<open>None\<close>s.\<close>

definition has_column :: "price_table \<Rightarrow> string \<Rightarrow> bool" where
  "has_column table m = list_ex (\<lambda>r. prices r m \<noteq> None) table"

datatype dtype = Float64 | Object

definition column_dtype :: "price_table \<Rightarrow> string \<Rightarrow> dtype" where
  "column_dtype table m =
     (if list_ex (\<lambda>r. prices r m \<noteq> Some PyNone) table then Float64 else Object)"

subsection \<open>get\_low\_price\_gainers\<close>

record low_price_gainer = ranked_row +
  Binance_Price :: float64
  Kraken_Price :: float64
  Avg_Price :: float64

text \<open>The boolean mask of lines 155 to 159, on one merged row.\<close>

definition low_price :: "merged_row \<Rightarrow> bool" where
  "low_price row =
     (let usdt_binance = to_float64 (prices_binance row ''USDT'');
          usdt_kraken = to_float64 (prices_kraken row ''USDT'')
      in (fl_less usdt_binance (Fin 1) \<or> fl_less usdt_kraken (Fin 1)) \<and>
         \<not> isna usdt_binance \<and> \<not> isna usdt_kraken)"

text \<open>Lines 165 to 171 and the renaming of lines 177 to 186, on one row. The arithmetic is
  numpy's, on columns.\<close>

definition gainer_of_row :: "merged_row \<Rightarrow> low_price_gainer" where
  "gainer_of_row row =
     (let usdt_binance = to_float64 (prices_binance row ''USDT'');
          usdt_kraken = to_float64 (prices_kraken row ''USDT'')
      in \<lparr>Symbol = Symbol row,
          Price_Diff_Pct =
            fl_mul (fl_div (fl_abs (fl_sub usdt_binance usdt_kraken))
                           (min_axis1 usdt_binance usdt_kraken))
                   (Fin 100),
          Binance_Price = usdt_binance,
          Kraken_Price = usdt_kraken,
          Avg_Price = mean_axis1 usdt_binance usdt_kraken\<rparr>)"

text \<open>The method after \<open>fetch_all_prices\<close>. Selecting a column the merged table does not
  have raises \<open>KeyError\<close> (the suffixes are added only to a column both tables have), and
  comparing a column of \<open>None\<close> with 1 raises \<open>TypeError\<close>; both return the empty
  \<open>DataFrame\<close>.\<close>

definition low_price_gainers_of_prices ::
  "(low_price_gainer list \<Rightarrow> low_price_gainer list) \<Rightarrow> price_table \<Rightarrow> price_table
     \<Rightarrow> low_price_gainer list" where
  "low_price_gainers_of_prices sort_values binance_prices kraken_prices =
     (if binance_prices = [] \<or> kraken_prices = [] then []
      else if \<not> has_column binance_prices ''USDT'' \<or> \<not> has_column kraken_prices ''USDT''
        then []
      else
        let merged_df = pd_merge binance_prices kraken_prices
        in if merged_df \<noteq> [] \<and>
              (column_dtype binance_prices ''USDT'' = Object \<or>
               column_dtype kraken_prices ''USDT'' = Object)
           then []
           else
             let low_price_df = filter low_price merged_df
             in if low_price_df = [] then []
                else sort_values (map gainer_of_row low_price_df))"

definition get_low_price_gainers ::
  "(low_price_gainer list \<Rightarrow> low_price_gainer list) \<Rightarrow> exchanges \<Rightarrow> low_price_gainer list" where
  "get_low_price_gainers sort_values env =
     (case fetch_all_prices env of
        (binance_prices, kraken_prices) \<Rightarrow>
          low_price_gainers_of_prices sort_values binance_prices kraken_prices)"

subsection \<open>calculate\_trade\_profit\<close>

text \<open>What \<open>table[table['Symbol'] == symbol]["<market>_price"].values[0]\<close> gives: a
  \<open>numpy.float64\<close> from a \<open>float64\<close> column, \<open>None\<close> from an object column.\<close>

datatype cell = CNone | CFloat float64

definition lookup_price :: "price_table \<Rightarrow> string \<Rightarrow> string \<Rightarrow> py_error + cell" where
  "lookup_price table symbol m =
     (if \<not> has_column table m then Inl KeyError
      else case filter (\<lambda>r. Symbol r = symbol) table of
          [] \<Rightarrow> Inl IndexError
        | r # rs \<Rightarrow>
            (case column_dtype table m of
               Float64 \<Rightarrow> Inr (CFloat (to_float64 (prices r m)))
             | Object \<Rightarrow> Inr CNone))"

record trade_simulation =
  symbol :: string
  market :: string
  initial_investment :: real
  buy_exchange :: string
  buy_price :: float64
  crypto_amount :: float64
  sell_exchange :: string
  sell_price :: float64
  sell_amount :: float64
  final_amount :: float64
  profit :: float64
  profit_percentage :: float64
  profitable :: bool

text \<open>The method after \<open>fetch_all_prices\<close>; \<open>None\<close> is the empty dictionary it returns on
  every failure. The prices are \<open>numpy.float64\<close>, so the arithmetic is numpy's: it rounds
  every result to a double and does not raise on zero or NaN; arithmetic on \<open>None\<close> raises
  \<open>TypeError\<close>. The amount and the prices are the values of doubles.\<close>

definition trade_profit_of_prices ::
  "price_table \<Rightarrow> price_table \<Rightarrow> string \<Rightarrow> string \<Rightarrow> real \<Rightarrow> string \<Rightarrow> string
     \<Rightarrow> trade_simulation option" where
  "trade_profit_of_prices binance_prices kraken_prices symbol' market' amount
       buy_exchange' sell_exchange' =
     (if binance_prices = [] \<or> kraken_prices = [] then None
      else case lookup_price binance_prices symbol' market' of
          Inl e \<Rightarrow> None
        | Inr binance_price \<Rightarrow>
            (case lookup_price kraken_prices symbol' market' of
               Inl e \<Rightarrow> None
             | Inr kraken_price \<Rightarrow>
                 (case (if buy_exchange' = ''Binance'' then binance_price else kraken_price) of
                    CNone \<Rightarrow> None
                  | CFloat buy_price' \<Rightarrow>
                      (case (if sell_exchange' = ''Binance'' then binance_price
                             else kraken_price) of
                         CNone \<Rightarrow> None
                       | CFloat sell_price' \<Rightarrow>
                           (let crypto_amount' = np_divide (Fin amount) buy_price';
                                sell_amount' = np_multiply crypto_amount' sell_price';
                                final_amount' = sell_amount';
                                profit' = np_subtract final_amount' (Fin amount);
                                profit_percentage' =
                                  np_multiply (np_divide profit' (Fin amount)) (Fin 100)
                            in Some \<lparr>symbol = symbol', market = market',
                                     initial_investment = amount,
                                     buy_exchange = buy_exchange',
                                     buy_price = buy_price',
                                     crypto_amount = crypto_amount',
                                     sell_exchange = sell_exchange',
                                     sell_price = sell_price',
                                     sell_amount = sell_amount',
                                     final_amount = final_amount',
                                     profit = profit',
                                     profit_percentage = profit_percentage',
                                     profitable = fl_less (Fin 0) profit'\<rparr>)))))"

definition calculate_trade_profit ::
  "exchanges \<Rightarrow> string \<Rightarrow> string \<Rightarrow> real \<Rightarrow> string \<Rightarrow> string \<Rightarrow> trade_simulation option" where
  "calculate_trade_profit env symbol' market' amount buy_exchange' sell_exchange' =
     (case fetch_all_prices env of
        (binance_prices, kraken_prices) \<Rightarrow>
          trade_profit_of_prices binance_prices kraken_prices symbol' market' amount
            buy_exchange' sell_exchange')"

subsection \<open>Notions used to state the properties\<close>

text \<open>The list \<open>opportunities\<close> as it stands at line 111, before it is sorted: the records
  appended by the loops, in the order they were appended (empty after an early return or
  an exception).\<close>

definition emitted_opportunities :: "real \<Rightarrow> price_table \<Rightarrow> price_table \<Rightarrow> opportunity list" where
  "emitted_opportunities t binance_prices kraken_prices =
     (if binance_prices = [] \<or> kraken_prices = [] then []
      else case scan_rows t (pd_merge binance_prices kraken_prices) MARKETS of
          Inl e \<Rightarrow> []
        | Inr opportunities \<Rightarrow> opportunities)"

subsection \<open>Example inputs\<close>

definition btc_row :: "real \<Rightarrow> price_row" where
  "btc_row p = \<lparr>Symbol = ''BTC'', prices = [''USDT'' \<mapsto> PyFloat p]\<rparr>"

definition eth_row :: "real \<Rightarrow> price_row" where
  "eth_row p = \<lparr>Symbol = ''ETH'', prices = [''USDT'' \<mapsto> PyFloat p]\<rparr>"

definition btc_opportunity :: "real \<Rightarrow> real \<Rightarrow> real \<Rightarrow> opportunity" where
  "btc_opportunity buy sell pct =
     \<lparr>Symbol = ''BTC'', Price_Diff_Pct = Fin pct, Market = ''USDT'',
      Buy_Exchange = ''Binance'', Sell_Exchange = ''Kraken'',
      Buy_Price = buy, Sell_Price = sell, Timestamp = 0\<rparr>"

definition eth_opportunity :: "real \<Rightarrow> real \<Rightarrow> real \<Rightarrow> opportunity" where
  "eth_opportunity buy sell pct =
     \<lparr>Symbol = ''ETH'', Price_Diff_Pct = Fin pct, Market = ''USDT'',
      Buy_Exchange = ''Binance'', Sell_Exchange = ''Kraken'',
      Buy_Price = buy, Sell_Price = sell, Timestamp = 0\<rparr>"

text \<open>Ticker dictionaries in which Binance lists no ETH/USDT pair: its row for ETH holds
  \<open>None\<close> under \<open>USDT_price\<close>, in a column that holds floats.\<close>

definition example_exchanges :: exchanges where
  "example_exchanges =
     \<lparr>binance_tickers =
        Inr [''BTCUSDT'' \<mapsto> 50000, ''XRPUSDT'' \<mapsto> 1 / 2, ''ETHBTC'' \<mapsto> 3 / 50],
      kraken_tickers =
        [''BTC/USDT'' \<mapsto> 50100, ''ETH/USDT'' \<mapsto> 3000, ''XRP/USDT'' \<mapsto> 51 / 100,
         ''ETH/BTC'' \<mapsto> 3 / 50],
      now = 0\<rparr>"

definition xrp_row :: "real \<Rightarrow> price_row" where
  "xrp_row p = \<lparr>Symbol = ''XRP'', prices = [''USDT'' \<mapsto> PyFloat p]\<rparr>"

definition xrp_gainer :: low_price_gainer where
  "xrp_gainer =
     \<lparr>Symbol = ''XRP'', Price_Diff_Pct = Fin 2, Binance_Price = Fin (1 / 2),
      Kraken_Price = Fin (51 / 100), Avg_Price = Fin (101 / 200)\<rparr>"

definition xrp_opportunity :: opportunity where
  "xrp_opportunity =
     \<lparr>Symbol = ''XRP'', Price_Diff_Pct = Fin 2, Market = ''USDT'',
      Buy_Exchange = ''Binance'', Sell_Exchange = ''Kraken'',
      Buy_Price = 1 / 2, Sell_Price = 51 / 100, Timestamp = 0\<rparr>"

text \<open>The record that the simulator returns for a buying price of 50000, a selling price of
  50100 and an amount of 100; the numbers are the doubles the five operations give.\<close>

definition example_simulation :: trade_simulation where
  "example_simulation =
     \<lparr>symbol = ''BTC'', market = ''USDT'', initial_investment = 100,
      buy_exchange = ''Binance'', buy_price = Fin 50000,
      crypto_amount = Fin (1152921504606847 / 576460752303423488),
      sell_exchange = ''Kraken'', sell_price = Fin 50100,
      sell_amount = Fin (7050948166601933 / 70368744177664),
      final_amount = Fin (7050948166601933 / 70368744177664),
      profit = Fin (14073748835533 / 70368744177664),
      profit_percentage = Fin (7205759403792895 / 36028797018963968),
      profitable = True\<rparr>"

section \<open>Properties\<close>

subsection \<open>The sorts\<close>

lemma precedes_total: "precedes x y \<or> precedes y x"
  by (cases x; cases y) auto

lemma precedes_trans: "precedes x y \<Longrightarrow> precedes y z \<Longrightarrow> precedes x z"
  by (cases x; cases y; cases z) auto

lemma mset_insert_desc: "mset (insert_desc key x ys) = add_mset x (mset ys)"
  by (induction ys) auto

lemma mset_stable_sort_desc: "mset (stable_sort_desc key xs) = mset xs"
  by (induction xs) (auto simp: mset_insert_desc)

lemma set_insert_desc: "set (insert_desc key x ys) = insert x (set ys)"
  by (induction ys) auto

lemma sorted_insert_desc:
  "sorted_wrt (\<lambda>a b. precedes (key a) (key b)) ys \<Longrightarrow>
   sorted_wrt (\<lambda>a b. precedes (key a) (key b)) (insert_desc key x ys)"
proof (induction ys)
  case Nil
  then show ?case by simp
next
  case (Cons y ys)
  show ?case
  proof (cases "precedes (key x) (key y)")
    case True
    with Cons.prems show ?thesis
      by (auto intro: precedes_trans)
  next
    case False
    then have "precedes (key y) (key x)"
      using precedes_total by blast
    with False Cons show ?thesis
      by (auto simp: set_insert_desc)
  qed
qed

lemma sorted_stable_sort_desc:
  "sorted_wrt (\<lambda>a b. precedes (key a) (key b)) (stable_sort_desc key xs)"
  by (induction xs) (auto intro: sorted_insert_desc)

lemma stable_sort_desc_promise: "sort_values_descending key (stable_sort_desc key)"
  by (simp add: sort_values_descending_def mset_stable_sort_desc sorted_stable_sort_desc)

lemma promise_set: "sort_values_descending key srt \<Longrightarrow> set (srt xs) = set xs"
  unfolding sort_values_descending_def by (metis set_mset_mset)

lemma promise_nonempty: "sort_values_descending key srt \<Longrightarrow> xs \<noteq> [] \<Longrightarrow> srt xs \<noteq> []"
  unfolding sort_values_descending_def by (metis mset_zero_iff)

lemma promise_sorted:
  "sort_values_descending key srt \<Longrightarrow> sorted_wrt (\<lambda>a b. precedes (key a) (key b)) (srt xs)"
  unfolding sort_values_descending_def by blast

subsection \<open>The scoring loops\<close>

lemma score_mem:
  "score t s m bp kp = Inr new \<Longrightarrow> r \<in> set new \<Longrightarrow>
     min bp kp \<noteq> 0 \<and> 0 < \<bar>bp - kp\<bar> / min bp kp * 100 \<and>
     r = \<lparr>Symbol = s, Price_Diff_Pct = Fin (\<bar>bp - kp\<bar> / min bp kp * 100), Market = m,
          Buy_Exchange = (if bp < kp then ''Binance'' else ''Kraken''),
          Sell_Exchange = (if bp < kp then ''Kraken'' else ''Binance''),
          Buy_Price = min bp kp, Sell_Price = max bp kp, Timestamp = t\<rparr>"
  by (auto simp: score_def Let_def split: if_splits)

lemma score_emits:
  assumes "min bp kp \<noteq> 0" and "0 < \<bar>bp - kp\<bar> / min bp kp * 100"
  shows "score t s m bp kp =
     Inr [\<lparr>Symbol = s, Price_Diff_Pct = Fin (\<bar>bp - kp\<bar> / min bp kp * 100), Market = m,
          Buy_Exchange = (if bp < kp then ''Binance'' else ''Kraken''),
          Sell_Exchange = (if bp < kp then ''Kraken'' else ''Binance''),
          Buy_Price = min bp kp, Sell_Price = max bp kp, Timestamp = t\<rparr>]"
proof (cases "bp < kp")
  case True
  then have "min bp kp = bp" and "max bp kp = kp" by auto
  with assms True show ?thesis
    by (simp add: score_def Let_def)
next
  case False
  then have "min bp kp = kp" and "max bp kp = bp" by auto
  with assms False show ?thesis
    by (simp add: score_def Let_def)
qed

lemma score_no_error: "min bp kp \<noteq> 0 \<Longrightarrow> \<exists>new. score t s m bp kp = Inr new"
  by (auto simp: score_def Let_def)

lemma row_opportunities_mem:
  "row_opportunities t row ms = Inr out \<Longrightarrow>
   (r \<in> set out) =
     (\<exists>m\<in>set ms. Symbol row \<noteq> m \<and>
        (\<exists>bp kp new. present (prices_binance row m) = Some bp \<and>
            present (prices_kraken row m) = Some kp \<and>
            score t (Symbol row) m bp kp = Inr new \<and> r \<in> set new))"
proof (induction ms arbitrary: out)
  case Nil
  then show ?case by simp
next
  case (Cons m ms)
  then show ?case
    by (auto split: if_splits option.splits sum.splits)
qed

lemma scan_rows_mem:
  "scan_rows t rows ms = Inr out \<Longrightarrow>
   (r \<in> set out) =
     (\<exists>row\<in>set rows. \<exists>new. row_opportunities t row ms = Inr new \<and> r \<in> set new)"
proof (induction rows arbitrary: out)
  case Nil
  then show ?case by simp
next
  case (Cons row rows)
  then show ?case
    by (auto split: sum.splits)
qed

lemma pd_merge_mem:
  "(row \<in> set (pd_merge binance_prices kraken_prices)) =
     (\<exists>b\<in>set binance_prices. \<exists>k\<in>set kraken_prices. Symbol k = Symbol b \<and>
        row = \<lparr>Symbol = Symbol b, prices_binance = prices b, prices_kraken = prices k\<rparr>)"
  by (auto simp: pd_merge_def)


subsection \<open>calculate\_arbitrage\_opportunities: what is returned and stored\<close>

lemma fst_opportunities_of_prices:
  "fst (opportunities_of_prices srt t self B K) =
     (if emitted_opportunities t B K = [] then [] else srt (emitted_opportunities t B K))"
  by (auto simp: opportunities_of_prices_def emitted_opportunities_def
      split: sum.splits list.splits)

lemma snd_opportunities_of_prices:
  "snd (opportunities_of_prices srt t self B K) =
     (case fst (opportunities_of_prices srt t self B K) of
        [] \<Rightarrow> self
      | best # others \<Rightarrow> self\<lparr>last_opportunity := Some best\<rparr>)"
  by (auto simp: opportunities_of_prices_def split: sum.splits list.splits)

lemma emitted_mem:
  assumes "r \<in> set (emitted_opportunities t B K)"
  shows "\<exists>b\<in>set B. \<exists>k\<in>set K. \<exists>m\<in>set MARKETS. \<exists>bp kp.
           Symbol k = Symbol b \<and> Symbol b \<noteq> m \<and>
           present (prices b m) = Some bp \<and> present (prices k m) = Some kp \<and>
           min bp kp \<noteq> 0 \<and> 0 < \<bar>bp - kp\<bar> / min bp kp * 100 \<and>
           r = \<lparr>Symbol = Symbol b, Price_Diff_Pct = Fin (\<bar>bp - kp\<bar> / min bp kp * 100),
                Market = m,
                Buy_Exchange = (if bp < kp then ''Binance'' else ''Kraken''),
                Sell_Exchange = (if bp < kp then ''Kraken'' else ''Binance''),
                Buy_Price = min bp kp, Sell_Price = max bp kp, Timestamp = t\<rparr>"
proof -
  from assms have ne: "B \<noteq> []" "K \<noteq> []"
    by (auto simp: emitted_opportunities_def split: if_splits)
  with assms obtain opps where scan: "scan_rows t (pd_merge B K) MARKETS = Inr opps"
    and r: "r \<in> set opps"
    by (cases "scan_rows t (pd_merge B K) MARKETS") (auto simp: emitted_opportunities_def)
  from scan r obtain row new where row: "row \<in> set (pd_merge B K)"
    and new: "row_opportunities t row MARKETS = Inr new" and rn: "r \<in> set new"
    by (auto simp: scan_rows_mem)
  from new rn obtain m bp kp sc where m: "m \<in> set MARKETS" "Symbol row \<noteq> m"
    and pb: "present (prices_binance row m) = Some bp"
    and pk: "present (prices_kraken row m) = Some kp"
    and sc: "score t (Symbol row) m bp kp = Inr sc" "r \<in> set sc"
    by (auto simp: row_opportunities_mem)
  from row obtain b k where bk: "b \<in> set B" "k \<in> set K" "Symbol k = Symbol b"
    and roweq: "row = \<lparr>Symbol = Symbol b, prices_binance = prices b, prices_kraken = prices k\<rparr>"
    by (auto simp: pd_merge_mem)
  from score_mem[OF sc] roweq bk m pb pk show ?thesis
    by (intro bexI[of _ b] bexI[of _ k] bexI[of _ m] exI[of _ bp] exI[of _ kp]) simp_all
qed

lemma emitted_of_out:
  assumes "sort_values_descending Price_Diff_Pct srt"
    and "opportunities_of_prices srt t self B K = (out, self')"
  shows "mset out = mset (emitted_opportunities t B K)"
proof -
  have "out = fst (opportunities_of_prices srt t self B K)"
    by (simp add: assms(2))
  with assms(1) show ?thesis
    by (simp add: fst_opportunities_of_prices sort_values_descending_def)
qed

lemma spec_example_run:
  "opportunities_of_prices (stable_sort_desc Price_Diff_Pct) 0 new_calculator
     [btc_row 100] [btc_row 102] =
   ([btc_opportunity 100 102 2], \<lparr>last_opportunity = Some (btc_opportunity 100 102 2)\<rparr>)"
  by (simp add: opportunities_of_prices_def pd_merge_def MARKETS_def score_def btc_row_def
      btc_opportunity_def new_calculator_def)

lemma emitted_pct_finite:
  "r \<in> set (emitted_opportunities t B K) \<Longrightarrow> \<exists>x. Price_Diff_Pct r = Fin x \<and> 0 < x"
  by (drule emitted_mem) auto

lemma returned_sorted_descending:
  assumes "sort_values_descending Price_Diff_Pct sort_values"
    and "opportunities_of_prices sort_values t self binance_prices kraken_prices = (out, self')"
  shows "sorted_wrt (\<lambda>a b. \<exists>x y. Price_Diff_Pct a = Fin x \<and> Price_Diff_Pct b = Fin y \<and> y \<le> x) out \<and>
         mset out = mset (emitted_opportunities t binance_prices kraken_prices)"
proof -
  let ?em = "emitted_opportunities t binance_prices kraken_prices"
  have perm: "mset out = mset ?em"
    by (rule emitted_of_out[OF assms])
  then have sub: "set out = set ?em"
    by (metis set_mset_mset)
  have out: "out = (if ?em = [] then [] else sort_values ?em)"
    using assms(2) fst_opportunities_of_prices[of sort_values t self binance_prices kraken_prices]
    by simp
  have "sorted_wrt (\<lambda>a b. precedes (Price_Diff_Pct a) (Price_Diff_Pct b)) out"
    using promise_sorted[OF assms(1), of ?em] out by (cases "?em = []") simp_all
  moreover have "\<exists>x y. Price_Diff_Pct a = Fin x \<and> Price_Diff_Pct b = Fin y \<and> y \<le> x"
    if "a \<in> set out" "b \<in> set out" "precedes (Price_Diff_Pct a) (Price_Diff_Pct b)" for a b
  proof -
    from that(1,2) sub obtain x y where "Price_Diff_Pct a = Fin x" "Price_Diff_Pct b = Fin y"
      using emitted_pct_finite by blast
    with that(3) show ?thesis by auto
  qed
  ultimately have "sorted_wrt (\<lambda>a b. \<exists>x y. Price_Diff_Pct a = Fin x \<and> Price_Diff_Pct b = Fin y \<and> y \<le> x) out"
    by (rule sorted_wrt_mono_rel[rotated])
  with perm show ?thesis by simp
qed

lemma two_gaps_run:
  "opportunities_of_prices (stable_sort_desc Price_Diff_Pct) 0 new_calculator
     [btc_row 100, eth_row 100] [btc_row 102, eth_row 105] =
   ([eth_opportunity 100 105 5, btc_opportunity 100 102 2],
    \<lparr>last_opportunity = Some (eth_opportunity 100 105 5)\<rparr>)"
  by (simp add: opportunities_of_prices_def pd_merge_def MARKETS_def score_def btc_row_def
      eth_row_def btc_opportunity_def eth_opportunity_def new_calculator_def)

lemma row_opportunities_no_error:
  assumes "\<And>m bp kp. m \<in> set ms \<Longrightarrow> Symbol row \<noteq> m \<Longrightarrow>
             present (prices_binance row m) = Some bp \<Longrightarrow>
             present (prices_kraken row m) = Some kp \<Longrightarrow> min bp kp \<noteq> 0"
  shows "\<exists>out. row_opportunities t row ms = Inr out"
  using assms
proof (induction ms)
  case Nil
  then show ?case by simp
next
  case (Cons m ms)
  then obtain rest where rest: "row_opportunities t row ms = Inr rest"
    by (metis list.set_intros(2))
  show ?case
  proof (cases "Symbol row = m")
    case True
    with rest show ?thesis by simp
  next
    case ne: False
    show ?thesis
    proof (cases "present (prices_binance row m)")
      case None
      with rest show ?thesis by simp
    next
      case (Some bp)
      note b = this
      show ?thesis
      proof (cases "present (prices_kraken row m)")
        case None
        with rest b show ?thesis by simp
      next
        case (Some kp)
        with b ne Cons.prems[of m bp kp] have "min bp kp \<noteq> 0" by simp
        then obtain new where "score t (Symbol row) m bp kp = Inr new"
          using score_no_error by blast
        with rest b Some show ?thesis by simp
      qed
    qed
  qed
qed

lemma scan_rows_no_error:
  assumes "\<And>row m bp kp. row \<in> set rows \<Longrightarrow> m \<in> set ms \<Longrightarrow> Symbol row \<noteq> m \<Longrightarrow>
             present (prices_binance row m) = Some bp \<Longrightarrow>
             present (prices_kraken row m) = Some kp \<Longrightarrow> min bp kp \<noteq> 0"
  shows "\<exists>out. scan_rows t rows ms = Inr out"
  using assms
proof (induction rows)
  case Nil
  then show ?case by simp
next
  case (Cons row rows)
  then obtain rest where rest: "scan_rows t rows ms = Inr rest"
    by (metis list.set_intros(2))
  obtain new where "row_opportunities t row ms = Inr new"
    using row_opportunities_no_error[of ms row t] Cons.prems
    by (metis list.set_intros(1))
  with rest show ?case by simp
qed

lemma scan_rows_row:
  "scan_rows t rows ms = Inr out \<Longrightarrow> row \<in> set rows \<Longrightarrow>
     \<exists>new. row_opportunities t row ms = Inr new"
proof (induction rows arbitrary: out)
  case Nil
  then show ?case by simp
next
  case (Cons a rows)
  then show ?case
    by (auto split: sum.splits)
qed

lemma emitted_intro:
  assumes scan: "scan_rows t (pd_merge B K) MARKETS = Inr opps"
    and bk: "b \<in> set B" "k \<in> set K" "Symbol k = Symbol b"
    and m: "m \<in> set MARKETS" "Symbol b \<noteq> m"
    and p: "present (prices b m) = Some bp" "present (prices k m) = Some kp"
    and nz: "min bp kp \<noteq> 0" and pos: "0 < \<bar>bp - kp\<bar> / min bp kp * 100"
  shows "\<lparr>Symbol = Symbol b, Price_Diff_Pct = Fin (\<bar>bp - kp\<bar> / min bp kp * 100),
           Market = m,
           Buy_Exchange = (if bp < kp then ''Binance'' else ''Kraken''),
           Sell_Exchange = (if bp < kp then ''Kraken'' else ''Binance''),
           Buy_Price = min bp kp, Sell_Price = max bp kp, Timestamp = t\<rparr>
         \<in> set (emitted_opportunities t B K)"
proof -
  let ?row = "\<lparr>Symbol = Symbol b, prices_binance = prices b, prices_kraken = prices k\<rparr>"
  let ?r = "\<lparr>Symbol = Symbol b, Price_Diff_Pct = Fin (\<bar>bp - kp\<bar> / min bp kp * 100),
           Market = m,
           Buy_Exchange = (if bp < kp then ''Binance'' else ''Kraken''),
           Sell_Exchange = (if bp < kp then ''Kraken'' else ''Binance''),
           Buy_Price = min bp kp, Sell_Price = max bp kp, Timestamp = t\<rparr>"
  have row: "?row \<in> set (pd_merge B K)"
    using bk by (auto simp: pd_merge_mem)
  from scan_rows_row[OF scan row] obtain new
    where new: "row_opportunities t ?row MARKETS = Inr new" by blast
  have sc: "score t (Symbol ?row) m bp kp = Inr [?r]"
    using score_emits[OF nz pos] by simp
  have "?r \<in> set new"
    unfolding row_opportunities_mem[OF new]
    using m p sc by (intro bexI[of _ m]) auto
  with new row have "?r \<in> set opps"
    unfolding scan_rows_mem[OF scan] by blast
  with scan bk show ?thesis
    by (auto simp: emitted_opportunities_def)
qed


lemma equal_prices_run:
  "opportunities_of_prices (stable_sort_desc Price_Diff_Pct) 0 new_calculator
     [btc_row 100] [btc_row 100] = ([], new_calculator)"
  by (simp add: opportunities_of_prices_def pd_merge_def MARKETS_def score_def btc_row_def)

text \<open>A zero price in one row ends the whole run: the division of line 83 raises, and the
  records of the other rows are lost with it.\<close>

lemma zero_price_ends_run:
  "opportunities_of_prices (stable_sort_desc Price_Diff_Pct) 0 new_calculator
     [eth_row 4, btc_row 0] [eth_row 8, btc_row 1] = ([], new_calculator)"
  by (simp add: opportunities_of_prices_def pd_merge_def MARKETS_def score_def btc_row_def
      eth_row_def)

subsection \<open>calculate\_trade\_profit\<close>

lemmas fetch_defs = fetch_all_prices_def TOP_CRYPTOS_def MARKETS_def
  binance_get_top_crypto_prices_def kraken_get_top_crypto_prices_def kraken_entry_def

lemma double_exponent_eq:
  assumes "2 powi e \<le> \<bar>x\<bar>" and "\<bar>x\<bar> < 2 powi (e + 1)" and "- 1022 \<le> e"
  shows "double_exponent x = e"
proof -
  have pos: "0 < \<bar>x\<bar>"
    using assms(1) by (smt (verit) zero_less_power_int)
  have "(2::real) powr (of_int e) = 2 powi e" "(2::real) powr (of_int (e + 1)) = 2 powi (e + 1)"
    by (simp_all add: powr_real_of_int' del: of_int_add)
  with assms have "\<lfloor>log 2 \<bar>x\<bar>\<rfloor> = e"
    using floor_log_eq_powr_iff[of "\<bar>x\<bar>" 2 e] pos by simp
  with assms(3) show ?thesis
    by (simp add: double_exponent_def)
qed

text \<open>Rounding a value of a known binade.\<close>

lemma round_double_normal:
  assumes "2 powi e \<le> \<bar>x\<bar>" and "\<bar>x\<bar> < 2 powi (e + 1)" and "- 1022 \<le> e"
    and "round_half_even (x / 2 powi (e - 52)) = m"
    and "\<bar>of_int m * 2 powi (e - 52)\<bar> < (2::real) ^ 1024"
  shows "round_double x = Fin (of_int m * 2 powi (e - 52))"
proof -
  have "x \<noteq> 0"
    using assms(1) by (smt (verit) zero_less_power_int)
  with double_exponent_eq[OF assms(1-3)] assms(4,5) show ?thesis
    by (simp add: round_double_def Let_def)
qed

lemma trade_profit_Some:
  assumes "trade_profit_of_prices B K s m amount buy_ex sell_ex = Some r"
  shows "symbol r = s \<and> market r = m \<and> initial_investment r = amount \<and>
         buy_exchange r = buy_ex \<and> sell_exchange r = sell_ex \<and>
         crypto_amount r = np_divide (Fin amount) (buy_price r) \<and>
         sell_amount r = np_multiply (crypto_amount r) (sell_price r) \<and>
         final_amount r = sell_amount r \<and>
         profit r = np_subtract (final_amount r) (Fin amount) \<and>
         profit_percentage r = np_multiply (np_divide (profit r) (Fin amount)) (Fin 100) \<and>
         profitable r = fl_less (Fin 0) (profit r)"
  using assms
  by (auto simp: trade_profit_of_prices_def Let_def split: if_splits sum.splits cell.splits)

lemma lookup_btc_row:
  "lookup_price [btc_row p] ''BTC'' ''USDT'' = Inr (CFloat (Fin p))"
  by (simp add: lookup_price_def has_column_def column_dtype_def btc_row_def)

text \<open>The five roundings of the example: 100 / 50000, times 50100, minus 100, divided by
  100, times 100.\<close>

lemma example_crypto_amount:
  "np_divide (Fin 100) (Fin 50000) = Fin (1152921504606847 / 576460752303423488)"
proof -
  have "round_double (1 / 500) = Fin (of_int 4611686018427388 * 2 powi (- 9 - 52))"
    by (rule round_double_normal) (simp_all add: round_half_even_def power_int_minus)
  then show ?thesis by (simp add: np_divide_def power_int_minus)
qed

lemma example_sell_amount:
  "np_multiply (Fin (1152921504606847 / 576460752303423488)) (Fin 50100) =
     Fin (7050948166601933 / 70368744177664)"
proof -
  have "round_double (1152921504606847 / 576460752303423488 * 50100) =
          Fin (of_int 7050948166601933 * 2 powi (6 - 52))"
    by (rule round_double_normal) (simp_all add: round_half_even_def power_int_minus)
  then show ?thesis by (simp add: np_multiply_def power_int_minus)
qed

lemma example_profit:
  "np_subtract (Fin (7050948166601933 / 70368744177664)) (Fin 100) =
     Fin (14073748835533 / 70368744177664)"
proof -
  have "round_double (7050948166601933 / 70368744177664 - 100) =
          Fin (of_int 7205759403792896 * 2 powi (- 3 - 52))"
    by (rule round_double_normal) (simp_all add: round_half_even_def power_int_minus)
  then show ?thesis by (simp add: np_subtract_def fl_sub_def power_int_minus)
qed

lemma example_profit_ratio:
  "np_divide (Fin (14073748835533 / 70368744177664)) (Fin 100) =
     Fin (4611686018427453 / 2305843009213693952)"
proof -
  have "round_double (14073748835533 / 70368744177664 / 100) =
          Fin (of_int 4611686018427453 * 2 powi (- 9 - 52))"
    by (rule round_double_normal) (simp_all add: round_half_even_def power_int_minus)
  then show ?thesis by (simp add: np_divide_def power_int_minus)
qed

lemma example_profit_percentage:
  "np_multiply (Fin (4611686018427453 / 2305843009213693952)) (Fin 100) =
     Fin (7205759403792895 / 36028797018963968)"
proof -
  have "round_double (4611686018427453 / 2305843009213693952 * 100) =
          Fin (of_int 7205759403792895 * 2 powi (- 3 - 52))"
    by (rule round_double_normal) (simp_all add: round_half_even_def power_int_minus)
  then show ?thesis by (simp add: np_multiply_def power_int_minus)
qed

lemma example_trade:
  "trade_profit_of_prices [btc_row 50000] [btc_row 50100] ''BTC'' ''USDT'' 100
       ''Binance'' ''Kraken'' = Some example_simulation"
  by (simp add: trade_profit_of_prices_def lookup_btc_row Let_def example_crypto_amount
      example_sell_amount example_profit example_profit_ratio example_profit_percentage
      example_simulation_def)

lemma double_literals:
  "round_double (1 / 500) = Fin (1152921504606847 / 576460752303423488)"
  "round_double (501 / 5) = Fin (7050948166601933 / 70368744177664)"
  "round_double (1 / 5) = Fin (3602879701896397 / 18014398509481984)"
proof -
  have "round_double (1 / 500) = Fin (of_int 4611686018427388 * 2 powi (- 9 - 52))"
    by (rule round_double_normal) (simp_all add: round_half_even_def power_int_minus)
  then show "round_double (1 / 500) = Fin (1152921504606847 / 576460752303423488)"
    by (simp add: power_int_minus)
  have "round_double (501 / 5) = Fin (of_int 7050948166601933 * 2 powi (6 - 52))"
    by (rule round_double_normal) (simp_all add: round_half_even_def power_int_minus)
  then show "round_double (501 / 5) = Fin (7050948166601933 / 70368744177664)"
    by (simp add: power_int_minus)
  have "round_double (1 / 5) = Fin (of_int 7205759403792794 * 2 powi (- 3 - 52))"
    by (rule round_double_normal) (simp_all add: round_half_even_def power_int_minus)
  then show "round_double (1 / 5) = Fin (3602879701896397 / 18014398509481984)"
    by (simp add: power_int_minus)
qed

text \<open>Rounding can leave a positive profit when the two prices are equal: 100 / 11 * 11 is
  the double above 100.\<close>

lemma equal_prices_rounded_profit:
  "map_option (\<lambda>r. (profit r, profitable r))
     (trade_profit_of_prices [btc_row 11] [btc_row 11] ''BTC'' ''USDT'' 100
        ''Binance'' ''Kraken'') =
     Some (Fin (1 / 70368744177664), True)"
proof -
  have "round_double (100 / 11) = Fin (of_int 5117726849284655 * 2 powi (3 - 52))"
    by (rule round_double_normal) (simp_all add: round_half_even_def power_int_minus)
  then have c: "np_divide (Fin 100) (Fin 11) = Fin (5117726849284655 / 562949953421312)"
    by (simp add: np_divide_def power_int_minus)
  have "round_double (5117726849284655 / 562949953421312 * 11) =
          Fin (of_int 7036874417766401 * 2 powi (6 - 52))"
    by (rule round_double_normal) (simp_all add: round_half_even_def power_int_minus)
  then have sa: "np_multiply (Fin (5117726849284655 / 562949953421312)) (Fin 11) =
      Fin (7036874417766401 / 70368744177664)"
    by (simp add: np_multiply_def power_int_minus)
  have "round_double (7036874417766401 / 70368744177664 - 100) =
          Fin (of_int 4503599627370496 * 2 powi (- 46 - 52))"
    by (rule round_double_normal) (simp_all add: round_half_even_def power_int_minus)
  then have pr: "np_subtract (Fin (7036874417766401 / 70368744177664)) (Fin 100) =
      Fin (1 / 70368744177664)"
    by (simp add: np_subtract_def fl_sub_def power_int_minus)
  show ?thesis
    by (simp add: trade_profit_of_prices_def lookup_btc_row Let_def c sa pr)
qed

subsection \<open>get\_low\_price\_gainers\<close>

lemma to_float64_present:
  "\<not> isna (to_float64 c) \<Longrightarrow> \<exists>v. present c = Some v \<and> to_float64 c = Fin v"
  by (cases c rule: to_float64.cases) auto

lemma low_price_row:
  assumes "low_price row"
  shows "\<exists>a b. present (prices_binance row ''USDT'') = Some a \<and>
               present (prices_kraken row ''USDT'') = Some b \<and>
               to_float64 (prices_binance row ''USDT'') = Fin a \<and>
               to_float64 (prices_kraken row ''USDT'') = Fin b \<and> (a < 1 \<or> b < 1)"
proof -
  from assms have nb: "\<not> isna (to_float64 (prices_binance row ''USDT''))"
    and nk: "\<not> isna (to_float64 (prices_kraken row ''USDT''))"
    and lt: "fl_less (to_float64 (prices_binance row ''USDT'')) (Fin 1) \<or>
             fl_less (to_float64 (prices_kraken row ''USDT'')) (Fin 1)"
    by (auto simp: low_price_def Let_def)
  from to_float64_present[OF nb] to_float64_present[OF nk] lt show ?thesis
    by auto
qed

lemma gainer_of_row_fields:
  assumes "to_float64 (prices_binance row ''USDT'') = Fin a"
    and "to_float64 (prices_kraken row ''USDT'') = Fin b"
  shows "gainer_of_row row =
           \<lparr>Symbol = Symbol row,
            Price_Diff_Pct = fl_mul (fl_div (Fin \<bar>a - b\<bar>) (Fin (min a b))) (Fin 100),
            Binance_Price = Fin a, Kraken_Price = Fin b, Avg_Price = Fin ((a + b) / 2)\<rparr>"
  using assms
  by (simp add: gainer_of_row_def Let_def fl_sub_def min_axis1_def mean_axis1_def min_def)

lemma gainers_mem:
  assumes "sort_values_descending Price_Diff_Pct srt"
    and "g \<in> set (low_price_gainers_of_prices srt B K)"
  shows "\<exists>b\<in>set B. \<exists>k\<in>set K. \<exists>price_a price_b.
           Symbol b = Symbol g \<and> Symbol k = Symbol g \<and>
           present (prices b ''USDT'') = Some price_a \<and>
           present (prices k ''USDT'') = Some price_b \<and>
           (price_a < 1 \<or> price_b < 1) \<and>
           g = \<lparr>Symbol = Symbol b,
                Price_Diff_Pct =
                  fl_mul (fl_div (Fin \<bar>price_a - price_b\<bar>) (Fin (min price_a price_b))) (Fin 100),
                Binance_Price = Fin price_a, Kraken_Price = Fin price_b,
                Avg_Price = Fin ((price_a + price_b) / 2)\<rparr>"
proof -
  from assms(2) have "g \<in> set (srt (map gainer_of_row (filter low_price (pd_merge B K))))"
    by (auto simp: low_price_gainers_of_prices_def Let_def split: if_splits)
  with promise_set[OF assms(1)] obtain row where row: "row \<in> set (pd_merge B K)"
    and low: "low_price row" and g: "g = gainer_of_row row"
    by auto
  from low_price_row[OF low] obtain a b where
    ab: "present (prices_binance row ''USDT'') = Some a"
      "present (prices_kraken row ''USDT'') = Some b"
      "to_float64 (prices_binance row ''USDT'') = Fin a"
      "to_float64 (prices_kraken row ''USDT'') = Fin b" "a < 1 \<or> b < 1"
    by blast
  from row obtain bb kk where bk: "bb \<in> set B" "kk \<in> set K" "Symbol kk = Symbol bb"
    and roweq: "row = \<lparr>Symbol = Symbol bb, prices_binance = prices bb, prices_kraken = prices kk\<rparr>"
    by (auto simp: pd_merge_mem)
  from gainer_of_row_fields[OF ab(3,4)] g roweq
  have geq: "g = \<lparr>Symbol = Symbol bb,
                Price_Diff_Pct = fl_mul (fl_div (Fin \<bar>a - b\<bar>) (Fin (min a b))) (Fin 100),
                Binance_Price = Fin a, Kraken_Price = Fin b,
                Avg_Price = Fin ((a + b) / 2)\<rparr>"
    by simp
  from bk ab roweq geq show ?thesis
    by (intro bexI[of _ bb] bexI[of _ kk] exI[of _ a] exI[of _ b]) simp_all
qed

lemma xrp_gainers:
  "low_price_gainers_of_prices (stable_sort_desc Price_Diff_Pct)
     [btc_row 50000, xrp_row (1 / 2)] [btc_row 50100, xrp_row (51 / 100)] = [xrp_gainer]"
  by (simp add: low_price_gainers_of_prices_def pd_merge_def has_column_def column_dtype_def
      low_price_def gainer_of_row_def fl_sub_def min_axis1_def mean_axis1_def
      btc_row_def xrp_row_def xrp_gainer_def)


subsection \<open>The fetchers never price a symbol in itself\<close>

lemma binance_row_self:
  "binance_row all_prices crypto ms row = Inr row' \<Longrightarrow> row crypto = None \<Longrightarrow>
     row' crypto = None"
proof (induction ms arbitrary: row)
  case Nil
  then show ?case by simp
next
  case (Cons m ms)
  then show ?case
    by (auto split: if_splits option.splits)
qed

lemma binance_data_self:
  "binance_data all_prices cs ms = Inr rows \<Longrightarrow> r \<in> set rows \<Longrightarrow> prices r (Symbol r) = None"
proof (induction cs arbitrary: rows)
  case Nil
  then show ?case by simp
next
  case (Cons c cs)
  from Cons.prems(1) obtain row rest where row: "binance_row all_prices c ms Map.empty = Inr row"
    and rest: "binance_data all_prices cs ms = Inr rest"
    and rows: "rows = \<lparr>Symbol = c, prices = row\<rparr> # rest"
    by (auto split: sum.splits)
  from binance_row_self[OF row] have self: "row c = None" by simp
  from Cons.prems(2) rows consider "r = \<lparr>Symbol = c, prices = row\<rparr>" | "r \<in> set rest"
    by auto
  then show ?case
  proof cases
    case 1
    with self show ?thesis by simp
  next
    case 2
    with Cons.IH[OF rest] show ?thesis by simp
  qed
qed

lemma binance_table_self:
  assumes "r \<in> set (binance_get_top_crypto_prices tp cs ms)"
  shows "prices r (Symbol r) = None"
proof (cases tp)
  case (Inl e)
  with assms show ?thesis by (simp add: binance_get_top_crypto_prices_def)
next
  case (Inr all_prices)
  show ?thesis
  proof (cases "binance_data all_prices cs ms")
    case (Inl e)
    with assms \<open>tp = Inr all_prices\<close> show ?thesis
      by (simp add: binance_get_top_crypto_prices_def)
  next
    case (Inr rows)
    with assms \<open>tp = Inr all_prices\<close> have "r \<in> set rows"
      by (simp add: binance_get_top_crypto_prices_def)
    with Inr show ?thesis by (rule binance_data_self)
  qed
qed

lemma emitted_not_self:
  "r \<in> set (emitted_opportunities t B K) \<Longrightarrow> Symbol r \<noteq> Market r"
  by (drule emitted_mem) auto

lemma example_opportunities:
  "fst (calculate_arbitrage_opportunities (stable_sort_desc Price_Diff_Pct) example_exchanges
          new_calculator) =
     [xrp_opportunity, btc_opportunity 50000 50100 (2 / 10)]"
  by (simp add: calculate_arbitrage_opportunities_def opportunities_of_prices_def pd_merge_def
      score_def example_exchanges_def fetch_defs xrp_opportunity_def btc_opportunity_def)

lemma example_gainers:
  "get_low_price_gainers (stable_sort_desc Price_Diff_Pct) example_exchanges = [xrp_gainer]"
  by (simp add: get_low_price_gainers_def low_price_gainers_of_prices_def pd_merge_def
      has_column_def column_dtype_def low_price_def gainer_of_row_def fl_sub_def min_axis1_def
      mean_axis1_def example_exchanges_def fetch_defs xrp_gainer_def)

section \<open>The claims\<close>

text \<open>\<open>calculate_arbitrage_opportunities\<close> is \<open>opportunities_of_prices\<close> on the tables that
  \<open>fetch_all_prices\<close> returns, and likewise for the other two methods. The properties
  below that hold of every pair of tables are stated of every pair of tables.\<close>

text \<open>C1: every record that \<open>calculate_arbitrage_opportunities\<close> returns has
  \<open>Buy_Price \<le> Sell_Price\<close>; the buying exchange is the one with the lower of the two
  prices that the exchanges report for the record's symbol and market, the selling exchange
  the other; and \<open>Price_Diff_Pct\<close> is \<open>|price_a - price_b| / min(price_a, price_b) * 100\<close> of
  these two prices.\<close>

theorem C1_buy_below_sell_and_gap:
  assumes "sort_values_descending Price_Diff_Pct sort_values"
    and "opportunities_of_prices sort_values t self binance_prices kraken_prices = (out, self')"
    and "r \<in> set out"
  shows "Buy_Price r \<le> Sell_Price r \<and>
    (\<exists>b\<in>set binance_prices. \<exists>k\<in>set kraken_prices. \<exists>price_a price_b.
        Symbol b = Symbol r \<and> Symbol k = Symbol r \<and>
        present (prices b (Market r)) = Some price_a \<and>
        present (prices k (Market r)) = Some price_b \<and>
        Price_Diff_Pct r = Fin (\<bar>price_a - price_b\<bar> / min price_a price_b * 100) \<and>
        Buy_Price r = min price_a price_b \<and> Sell_Price r = max price_a price_b \<and>
        Buy_Exchange r = (if price_a < price_b then ''Binance'' else ''Kraken'') \<and>
        Sell_Exchange r = (if price_a < price_b then ''Kraken'' else ''Binance''))"
proof -
  from emitted_of_out[OF assms(1,2)] assms(3)
  have "r \<in> set (emitted_opportunities t binance_prices kraken_prices)"
    by (metis set_mset_mset)
  from emitted_mem[OF this] obtain b k m bp kp where
    bk: "b \<in> set binance_prices" "k \<in> set kraken_prices" "Symbol k = Symbol b"
    and p: "present (prices b m) = Some bp" "present (prices k m) = Some kp"
    and r: "r = \<lparr>Symbol = Symbol b, Price_Diff_Pct = Fin (\<bar>bp - kp\<bar> / min bp kp * 100),
                Market = m,
                Buy_Exchange = (if bp < kp then ''Binance'' else ''Kraken''),
                Sell_Exchange = (if bp < kp then ''Kraken'' else ''Binance''),
                Buy_Price = min bp kp, Sell_Price = max bp kp, Timestamp = t\<rparr>"
    by blast
  have le: "Buy_Price r \<le> Sell_Price r"
    by (simp add: r)
  have "\<exists>price_a price_b.
        Symbol b = Symbol r \<and> Symbol k = Symbol r \<and>
        present (prices b (Market r)) = Some price_a \<and>
        present (prices k (Market r)) = Some price_b \<and>
        Price_Diff_Pct r = Fin (\<bar>price_a - price_b\<bar> / min price_a price_b * 100) \<and>
        Buy_Price r = min price_a price_b \<and> Sell_Price r = max price_a price_b \<and>
        Buy_Exchange r = (if price_a < price_b then ''Binance'' else ''Kraken'') \<and>
        Sell_Exchange r = (if price_a < price_b then ''Kraken'' else ''Binance'')"
    using bk p by (intro exI[of _ bp] exI[of _ kp]) (simp add: r)
  with bk le show ?thesis by blast
qed

theorem C1_buy_below_sell_and_gap_witness:
  "opportunities_of_prices (stable_sort_desc Price_Diff_Pct) 0 new_calculator
     [btc_row 100] [btc_row 102] =
   ([btc_opportunity 100 102 2], \<lparr>last_opportunity = Some (btc_opportunity 100 102 2)\<rparr>) \<and>
   Buy_Price (btc_opportunity 100 102 2) \<le> Sell_Price (btc_opportunity 100 102 2) \<and>
   (\<exists>b\<in>set [btc_row 100]. \<exists>k\<in>set [btc_row 102]. \<exists>price_a price_b.
        Symbol b = Symbol (btc_opportunity 100 102 2) \<and>
        Symbol k = Symbol (btc_opportunity 100 102 2) \<and>
        present (prices b (Market (btc_opportunity 100 102 2))) = Some price_a \<and>
        present (prices k (Market (btc_opportunity 100 102 2))) = Some price_b \<and>
        Price_Diff_Pct (btc_opportunity 100 102 2) =
          Fin (\<bar>price_a - price_b\<bar> / min price_a price_b * 100) \<and>
        Buy_Price (btc_opportunity 100 102 2) = min price_a price_b \<and>
        Sell_Price (btc_opportunity 100 102 2) = max price_a price_b \<and>
        Buy_Exchange (btc_opportunity 100 102 2) =
          (if price_a < price_b then ''Binance'' else ''Kraken'') \<and>
        Sell_Exchange (btc_opportunity 100 102 2) =
          (if price_a < price_b then ''Kraken'' else ''Binance''))"
  using C1_buy_below_sell_and_gap[OF stable_sort_desc_promise spec_example_run, of "btc_opportunity 100 102 2"]
    spec_example_run
  by simp


text \<open>C2, as amended: in a run in which the division of line 83 does not raise (no symbol
  and configured market other than the symbol itself has prices from both exchanges of
  which the lower is 0), for every symbol and every configured market other than the symbol
  itself for which both exchanges report a price, \<open>calculate_arbitrage_opportunities\<close>
  returns the record of that pair exactly when \<open>Price_Diff_Pct > 0\<close>, that is when the two
  prices differ and are positive. When the two prices are equal no record is emitted. There
  is no minimum threshold.\<close>

theorem C2_emitted_iff_prices_differ:
  assumes "sort_values_descending Price_Diff_Pct sort_values"
    and no_zero: "\<forall>b'\<in>set binance_prices. \<forall>k'\<in>set kraken_prices. \<forall>m'\<in>set MARKETS. \<forall>x y.
           Symbol k' = Symbol b' \<and> Symbol b' \<noteq> m' \<and>
           present (prices b' m') = Some x \<and> present (prices k' m') = Some y
           \<longrightarrow> min x y \<noteq> 0"
    and bk: "b \<in> set binance_prices" "k \<in> set kraken_prices" "Symbol k = Symbol b"
    and m: "m \<in> set MARKETS" "Symbol b \<noteq> m"
    and p: "present (prices b m) = Some price_a" "present (prices k m) = Some price_b"
  shows "(\<exists>r\<in>set (fst (opportunities_of_prices sort_values t self binance_prices kraken_prices)).
            Symbol r = Symbol b \<and> Market r = m \<and>
            Buy_Price r = min price_a price_b \<and> Sell_Price r = max price_a price_b \<and>
            Price_Diff_Pct r = Fin (\<bar>price_a - price_b\<bar> / min price_a price_b * 100))
         = (price_a \<noteq> price_b \<and> 0 < min price_a price_b)"
proof -
  let ?em = "emitted_opportunities t binance_prices kraken_prices"
  let ?out = "fst (opportunities_of_prices sort_values t self binance_prices kraken_prices)"
  have "mset ?out = mset ?em"
    by (rule emitted_of_out[OF assms(1) surjective_pairing])
  then have out: "set ?out = set ?em"
    by (metis set_mset_mset)
  have nz: "min bp kp \<noteq> 0"
    if "row \<in> set (pd_merge binance_prices kraken_prices)" "mk \<in> set MARKETS"
      "Symbol row \<noteq> mk"
      "present (prices_binance row mk) = Some bp" "present (prices_kraken row mk) = Some kp"
    for row mk bp kp
  proof -
    from that(1) obtain b' k' where "b' \<in> set binance_prices" "k' \<in> set kraken_prices"
      "Symbol k' = Symbol b'"
      "row = \<lparr>Symbol = Symbol b', prices_binance = prices b', prices_kraken = prices k'\<rparr>"
      by (auto simp: pd_merge_mem)
    with that(2-5) no_zero show ?thesis
      by auto
  qed
  obtain opps where scan: "scan_rows t (pd_merge binance_prices kraken_prices) MARKETS = Inr opps"
    using scan_rows_no_error[of "pd_merge binance_prices kraken_prices" MARKETS t] nz by blast
  show ?thesis
  proof
    assume "\<exists>r\<in>set ?out. Symbol r = Symbol b \<and> Market r = m \<and>
            Buy_Price r = min price_a price_b \<and> Sell_Price r = max price_a price_b \<and>
            Price_Diff_Pct r = Fin (\<bar>price_a - price_b\<bar> / min price_a price_b * 100)"
    then obtain r where r: "r \<in> set ?em"
      and pct: "Price_Diff_Pct r = Fin (\<bar>price_a - price_b\<bar> / min price_a price_b * 100)"
      using out by blast
    from emitted_pct_finite[OF r] pct
    have "0 < \<bar>price_a - price_b\<bar> / min price_a price_b * 100" by auto
    then show "price_a \<noteq> price_b \<and> 0 < min price_a price_b"
      by (auto simp: zero_less_divide_iff zero_less_mult_iff)
  next
    assume "price_a \<noteq> price_b \<and> 0 < min price_a price_b"
    then have "min price_a price_b \<noteq> 0"
      and "0 < \<bar>price_a - price_b\<bar> / min price_a price_b * 100"
      by auto
    from emitted_intro[OF scan bk m p this]
    show "\<exists>r\<in>set ?out. Symbol r = Symbol b \<and> Market r = m \<and>
            Buy_Price r = min price_a price_b \<and> Sell_Price r = max price_a price_b \<and>
            Price_Diff_Pct r = Fin (\<bar>price_a - price_b\<bar> / min price_a price_b * 100)"
      unfolding out by (rule rev_bexI) simp
  qed
qed

theorem C2_emitted_iff_prices_differ_witness:
  "(\<exists>r\<in>set (fst (opportunities_of_prices (stable_sort_desc Price_Diff_Pct) 0 new_calculator
                     [btc_row 100] [btc_row 102])).
       Symbol r = Symbol (btc_row 100) \<and> Market r = ''USDT'' \<and>
       Buy_Price r = min 100 102 \<and> Sell_Price r = max 100 102 \<and>
       Price_Diff_Pct r = Fin (\<bar>100 - 102\<bar> / min 100 102 * 100))
   = ((100::real) \<noteq> 102 \<and> 0 < min (100::real) 102)"
proof -
  have no_zero: "\<forall>b'\<in>set [btc_row 100]. \<forall>k'\<in>set [btc_row 102]. \<forall>m'\<in>set MARKETS. \<forall>x y.
           Symbol k' = Symbol b' \<and> Symbol b' \<noteq> m' \<and>
           present (prices b' m') = Some x \<and> present (prices k' m') = Some y
           \<longrightarrow> min x y \<noteq> 0"
    by (auto simp: btc_row_def MARKETS_def)
  have bk: "btc_row 100 \<in> set [btc_row 100]" "btc_row 102 \<in> set [btc_row 102]"
    "Symbol (btc_row 102) = Symbol (btc_row 100)"
    by (simp_all add: btc_row_def)
  have m: "''USDT'' \<in> set MARKETS" "Symbol (btc_row 100) \<noteq> ''USDT''"
    by (simp_all add: MARKETS_def btc_row_def)
  have p: "present (prices (btc_row 100) ''USDT'') = Some 100"
    "present (prices (btc_row 102) ''USDT'') = Some 102"
    by (simp_all add: btc_row_def)
  show ?thesis
    by (rule C2_emitted_iff_prices_differ
        [OF stable_sort_desc_promise no_zero bk m p])
qed

text \<open>C2 as stated fails: both exchanges report the same price for BTC in USDT, and no
  record is returned.\<close>

theorem C2_equal_prices_counterexample:
  "present (prices (btc_row 100) ''USDT'') = Some 100 \<and>
   fst (opportunities_of_prices (stable_sort_desc Price_Diff_Pct) 0 new_calculator
          [btc_row 100] [btc_row 100]) = []"
proof
  show "present (prices (btc_row 100) ''USDT'') = Some 100"
    by (simp add: btc_row_def)
  show "fst (opportunities_of_prices (stable_sort_desc Price_Diff_Pct) 0 new_calculator
          [btc_row 100] [btc_row 100]) = []"
    by (simp only: equal_prices_run fst_conv)
qed


text \<open>C4: after a run that returns at least one record, \<open>get_last_opportunity\<close> gives the
  first record of the returned sequence, and no returned record has a larger
  \<open>Price_Diff_Pct\<close>; a run that returns nothing leaves the calculator as it was; and a new
  calculator gives the empty result.\<close>

theorem C4_last_opportunity:
  assumes "sort_values_descending Price_Diff_Pct sort_values"
    and "opportunities_of_prices sort_values t self binance_prices kraken_prices = (out, self')"
  shows "(out \<noteq> [] \<longrightarrow>
            get_last_opportunity self' = Some (hd out) \<and>
            (\<forall>r\<in>set out. \<not> fl_less (Price_Diff_Pct (hd out)) (Price_Diff_Pct r))) \<and>
         (out = [] \<longrightarrow> self' = self) \<and>
         get_last_opportunity new_calculator = None"
proof -
  have o: "out = fst (opportunities_of_prices sort_values t self binance_prices kraken_prices)"
    and s: "self' = snd (opportunities_of_prices sort_values t self binance_prices kraken_prices)"
    by (simp_all add: assms(2))
  have st: "self' = (case out of [] \<Rightarrow> self | best # others \<Rightarrow> self\<lparr>last_opportunity := Some best\<rparr>)"
    unfolding o s by (rule snd_opportunities_of_prices)
  have stored: "get_last_opportunity self' = Some (hd out)" if "out \<noteq> []"
    using that st by (cases out) (simp_all add: get_last_opportunity_def)
  have best: "\<not> fl_less (Price_Diff_Pct (hd out)) (Price_Diff_Pct r)" if "r \<in> set out" for r
  proof -
    from returned_sorted_descending[OF assms]
    have srt: "sorted_wrt (\<lambda>a b. \<exists>x y. Price_Diff_Pct a = Fin x \<and> Price_Diff_Pct b = Fin y \<and> y \<le> x) out"
      and perm: "mset out = mset (emitted_opportunities t binance_prices kraken_prices)"
      by simp_all
    from that obtain best others where out: "out = best # others" by (cases out) auto
    from perm that have "r \<in> set (emitted_opportunities t binance_prices kraken_prices)"
      by (metis set_mset_mset)
    then obtain y where y: "Price_Diff_Pct r = Fin y" using emitted_pct_finite by blast
    show ?thesis
    proof (cases "r = best")
      case True
      with y out show ?thesis by simp
    next
      case False
      with that out have "r \<in> set others" by simp
      with srt out y show ?thesis by auto
    qed
  qed
  from stored best st show ?thesis
    by (auto simp: get_last_opportunity_def new_calculator_def)
qed

theorem C4_last_opportunity_witness:
  "opportunities_of_prices (stable_sort_desc Price_Diff_Pct) 0 new_calculator
     [btc_row 100, eth_row 100] [btc_row 102, eth_row 105] =
   ([eth_opportunity 100 105 5, btc_opportunity 100 102 2],
    \<lparr>last_opportunity = Some (eth_opportunity 100 105 5)\<rparr>) \<and>
   get_last_opportunity \<lparr>last_opportunity = Some (eth_opportunity 100 105 5)\<rparr> =
     Some (hd [eth_opportunity 100 105 5, btc_opportunity 100 102 2]) \<and>
   \<not> fl_less (Price_Diff_Pct (hd [eth_opportunity 100 105 5, btc_opportunity 100 102 2]))
              (Price_Diff_Pct (btc_opportunity 100 102 2)) \<and>
   get_last_opportunity new_calculator = None"
  using C4_last_opportunity[OF stable_sort_desc_promise two_gaps_run] two_gaps_run
  by simp

text \<open>C5: if either price table is empty, or the join on \<open>Symbol\<close> has no rows,
  \<open>calculate_arbitrage_opportunities\<close> returns the empty sequence and the stored last
  opportunity is unchanged.\<close>

theorem C5_empty_input_leaves_state:
  assumes "binance_prices = [] \<or> kraken_prices = [] \<or> pd_merge binance_prices kraken_prices = []"
  shows "opportunities_of_prices sort_values t self binance_prices kraken_prices = ([], self)"
  using assms by (auto simp: opportunities_of_prices_def)

theorem C5_empty_input_leaves_state_witness:
  "([] = [] \<or> [btc_row 102] = [] \<or> pd_merge [] [btc_row 102] = []) \<and>
   opportunities_of_prices (stable_sort_desc Price_Diff_Pct) 0
     \<lparr>last_opportunity = Some (btc_opportunity 100 102 2)\<rparr> [] [btc_row 102] =
     ([], \<lparr>last_opportunity = Some (btc_opportunity 100 102 2)\<rparr>) \<and>
   pd_merge [btc_row 100] [eth_row 100] = [] \<and>
   opportunities_of_prices (stable_sort_desc Price_Diff_Pct) 0
     \<lparr>last_opportunity = Some (btc_opportunity 100 102 2)\<rparr> [btc_row 100] [eth_row 100] =
     ([], \<lparr>last_opportunity = Some (btc_opportunity 100 102 2)\<rparr>)"
proof -
  have a: "([]::price_table) = [] \<or> [btc_row 102] = [] \<or> pd_merge [] [btc_row 102] = []"
    by simp
  have b: "pd_merge [btc_row 100] [eth_row 100] = []"
    by (simp add: pd_merge_def btc_row_def eth_row_def)
  then have c: "[btc_row 100] = [] \<or> [eth_row 100] = [] \<or> pd_merge [btc_row 100] [eth_row 100] = []"
    by simp
  from a b C5_empty_input_leaves_state[OF a] C5_empty_input_leaves_state[OF c] show ?thesis by simp
qed


text \<open>C6 (the code departs from the claim): Binance reports no price for ETH in USDT, and
  \<open>calculate_trade_profit\<close> returns a record whose numeric fields are NaN, not the empty
  result. The same happens for BTC priced in BTC, which neither table has a price for.\<close>

theorem C6_absent_price_gives_nan_record:
  "calculate_trade_profit example_exchanges ''ETH'' ''USDT'' 100 ''Binance'' ''Kraken'' =
     Some \<lparr>symbol = ''ETH'', market = ''USDT'', initial_investment = 100,
           buy_exchange = ''Binance'', buy_price = NaN, crypto_amount = NaN,
           sell_exchange = ''Kraken'', sell_price = Fin 3000, sell_amount = NaN,
           final_amount = NaN, profit = NaN, profit_percentage = NaN,
           profitable = False\<rparr> \<and>
   calculate_trade_profit example_exchanges ''BTC'' ''BTC'' 100 ''Binance'' ''Kraken'' =
     Some \<lparr>symbol = ''BTC'', market = ''BTC'', initial_investment = 100,
           buy_exchange = ''Binance'', buy_price = NaN, crypto_amount = NaN,
           sell_exchange = ''Kraken'', sell_price = NaN, sell_amount = NaN,
           final_amount = NaN, profit = NaN, profit_percentage = NaN,
           profitable = False\<rparr>"
  by (simp add: calculate_trade_profit_def trade_profit_of_prices_def lookup_price_def
      has_column_def column_dtype_def example_exchanges_def fl_sub_def fetch_defs
      np_divide_def np_multiply_def np_subtract_def Let_def)

text \<open>C7, as amended: in every record that \<open>calculate_trade_profit\<close> returns,
  \<open>crypto_amount = initial_investment / buy_price\<close>,
  \<open>sell_amount = crypto_amount * sell_price\<close>, \<open>final_amount = sell_amount\<close> and
  \<open>profit = final_amount - initial_investment\<close>, each operation rounded to a double, and
  \<open>profitable\<close> is \<open>profit > 0\<close>, so a profit of zero is not profitable. With a buying
  price of 50000, a selling price of 50100 and an amount of 100 the record has
  \<open>crypto_amount\<close> the double 0.002, \<open>sell_amount\<close> the double 100.2, \<open>profit\<close> and
  \<open>profit_percentage\<close> within \<open>10^-14\<close> of 0.2, and \<open>profitable = True\<close>.\<close>

theorem C7_trade_arithmetic:
  assumes "trade_profit_of_prices binance_prices kraken_prices s m amount buy_ex sell_ex = Some r"
  shows "initial_investment r = amount \<and>
         crypto_amount r = np_divide (Fin (initial_investment r)) (buy_price r) \<and>
         sell_amount r = np_multiply (crypto_amount r) (sell_price r) \<and>
         final_amount r = sell_amount r \<and>
         profit r = np_subtract (final_amount r) (Fin (initial_investment r)) \<and>
         profit_percentage r =
           np_multiply (np_divide (profit r) (Fin (initial_investment r))) (Fin 100) \<and>
         profitable r = fl_less (Fin 0) (profit r) \<and>
         (profit r = Fin 0 \<longrightarrow> \<not> profitable r) \<and>
         trade_profit_of_prices [btc_row 50000] [btc_row 50100] ''BTC'' ''USDT'' 100
             ''Binance'' ''Kraken'' = Some example_simulation \<and>
         crypto_amount example_simulation = round_double (2 / 1000) \<and>
         sell_amount example_simulation = round_double (1002 / 10) \<and>
         (\<exists>p. profit example_simulation = Fin p \<and> \<bar>p - 2 / 10\<bar> < 1 / 10 ^ 14) \<and>
         (\<exists>p. profit_percentage example_simulation = Fin p \<and> \<bar>p - 2 / 10\<bar> < 1 / 10 ^ 14) \<and>
         profitable example_simulation"
proof -
  from trade_profit_Some[OF assms]
  have f1: "initial_investment r = amount"
    and f2: "crypto_amount r = np_divide (Fin amount) (buy_price r)"
    and f3: "sell_amount r = np_multiply (crypto_amount r) (sell_price r)"
    and f4: "final_amount r = sell_amount r"
    and f5: "profit r = np_subtract (final_amount r) (Fin amount)"
    and f6: "profit_percentage r = np_multiply (np_divide (profit r) (Fin amount)) (Fin 100)"
    and f7: "profitable r = fl_less (Fin 0) (profit r)"
    by blast+
  have f8: "profit r = Fin 0 \<longrightarrow> \<not> profitable r"
    by (simp add: f7)
  have e1: "crypto_amount example_simulation = round_double (2 / 1000)"
    and e2: "sell_amount example_simulation = round_double (1002 / 10)"
    by (simp_all add: example_simulation_def double_literals)
  have e3: "\<exists>p. profit example_simulation = Fin p \<and> \<bar>p - 2 / 10\<bar> < 1 / 10 ^ 14"
    by (rule exI[of _ "14073748835533 / 70368744177664"])
      (simp add: example_simulation_def)
  have e4: "\<exists>p. profit_percentage example_simulation = Fin p \<and> \<bar>p - 2 / 10\<bar> < 1 / 10 ^ 14"
    by (rule exI[of _ "7205759403792895 / 36028797018963968"])
      (simp add: example_simulation_def)
  have e5: "profitable example_simulation"
    by (simp add: example_simulation_def)
  show ?thesis
    unfolding f1
    by (intro conjI refl f2 f3 f4 f5 f6 f7 f8 example_trade e1 e2 e3 e4 e5)
qed

theorem C7_trade_arithmetic_witness:
  "trade_profit_of_prices [btc_row 50000] [btc_row 50100] ''BTC'' ''USDT'' 100
       ''Binance'' ''Kraken'' = Some example_simulation \<and>
   initial_investment example_simulation = 100 \<and>
   crypto_amount example_simulation =
     np_divide (Fin (initial_investment example_simulation)) (buy_price example_simulation) \<and>
   sell_amount example_simulation =
     np_multiply (crypto_amount example_simulation) (sell_price example_simulation) \<and>
   final_amount example_simulation = sell_amount example_simulation \<and>
   profit example_simulation =
     np_subtract (final_amount example_simulation) (Fin (initial_investment example_simulation)) \<and>
   profitable example_simulation = fl_less (Fin 0) (profit example_simulation)"
  using C7_trade_arithmetic[OF example_trade] example_trade
  by blast

text \<open>C7 as stated fails in its example: the profit and the profit percentage that the code
  returns for 50000, 50100 and 100 are 0.20000000000000284 and 0.20000000000000281.
  Neither is 0.2, as a real number or as the double nearest to it.\<close>

theorem C7_example_profit_counterexample:
  "trade_profit_of_prices [btc_row 50000] [btc_row 50100] ''BTC'' ''USDT'' 100
       ''Binance'' ''Kraken'' = Some example_simulation \<and>
   profit example_simulation = Fin (14073748835533 / 70368744177664) \<and>
   profit example_simulation \<noteq> Fin (2 / 10) \<and>
   profit example_simulation \<noteq> round_double (2 / 10) \<and>
   profit_percentage example_simulation = Fin (7205759403792895 / 36028797018963968) \<and>
   profit_percentage example_simulation \<noteq> Fin (2 / 10) \<and>
   profit_percentage example_simulation \<noteq> round_double (2 / 10)"
  by (simp add: example_trade double_literals example_simulation_def)

text \<open>C8: every row that \<open>get_low_price_gainers\<close> returns has a price from both exchanges
  in USDT, and at least one of the two is below 1, so never both at or above 1;
  \<open>Avg_Price\<close> is the mean of the two prices, and \<open>Price_Diff_Pct\<close> is
  \<open>|price_a - price_b| / min(price_a, price_b) * 100\<close>, the value the opportunity scorer
  computes from the same two prices.\<close>

theorem C8_low_price_rows:
  assumes "sort_values_descending Price_Diff_Pct sort_values"
    and "g \<in> set (low_price_gainers_of_prices sort_values binance_prices kraken_prices)"
  shows "\<exists>b\<in>set binance_prices. \<exists>k\<in>set kraken_prices. \<exists>price_a price_b.
           Symbol b = Symbol g \<and> Symbol k = Symbol g \<and>
           present (prices b ''USDT'') = Some price_a \<and>
           present (prices k ''USDT'') = Some price_b \<and>
           Binance_Price g = Fin price_a \<and> Kraken_Price g = Fin price_b \<and>
           (price_a < 1 \<or> price_b < 1) \<and> \<not> (1 \<le> price_a \<and> 1 \<le> price_b) \<and>
           Avg_Price g = Fin ((price_a + price_b) / 2) \<and>
           Price_Diff_Pct g =
             fl_mul (fl_div (Fin \<bar>price_a - price_b\<bar>) (Fin (min price_a price_b))) (Fin 100) \<and>
           (min price_a price_b \<noteq> 0 \<longrightarrow>
              Price_Diff_Pct g = Fin (\<bar>price_a - price_b\<bar> / min price_a price_b * 100)) \<and>
           (\<forall>t s m opp. score t s m price_a price_b = Inr [opp] \<longrightarrow>
              Price_Diff_Pct g = Price_Diff_Pct opp)"
proof -
  from gainers_mem[OF assms] obtain b k a c where
    bk: "b \<in> set binance_prices" "k \<in> set kraken_prices"
    and sy: "Symbol b = Symbol g" "Symbol k = Symbol g"
    and p: "present (prices b ''USDT'') = Some a" "present (prices k ''USDT'') = Some c"
    and lt: "a < 1 \<or> c < 1"
    and g: "g = \<lparr>Symbol = Symbol b,
                Price_Diff_Pct = fl_mul (fl_div (Fin \<bar>a - c\<bar>) (Fin (min a c))) (Fin 100),
                Binance_Price = Fin a, Kraken_Price = Fin c,
                Avg_Price = Fin ((a + c) / 2)\<rparr>"
    by auto
  have fields: "Binance_Price g = Fin a" "Kraken_Price g = Fin c"
    "Avg_Price g = Fin ((a + c) / 2)"
    "Price_Diff_Pct g = fl_mul (fl_div (Fin \<bar>a - c\<bar>) (Fin (min a c))) (Fin 100)"
    by (subst g, simp)+
  have same: "min a c \<noteq> 0 \<longrightarrow> Price_Diff_Pct g = Fin (\<bar>a - c\<bar> / min a c * 100)"
    by (simp add: fields(4))
  have scorer: "\<forall>t s m opp. score t s m a c = Inr [opp] \<longrightarrow> Price_Diff_Pct g = Price_Diff_Pct opp"
  proof (intro allI impI)
    fix t s m opp
    assume sc: "score t s m a c = Inr [opp]"
    from score_mem[OF sc, of opp] have "min a c \<noteq> 0"
      and "Price_Diff_Pct opp = Fin (\<bar>a - c\<bar> / min a c * 100)"
      by simp_all
    with same show "Price_Diff_Pct g = Price_Diff_Pct opp" by simp
  qed
  from lt have nb: "\<not> (1 \<le> a \<and> 1 \<le> c)" by auto
  show ?thesis
    using bk sy p lt nb fields same scorer
    by (intro bexI[of _ b] bexI[of _ k] exI[of _ a] exI[of _ c] conjI)
qed

theorem C8_low_price_rows_witness:
  "xrp_gainer \<in> set (low_price_gainers_of_prices (stable_sort_desc Price_Diff_Pct)
       [btc_row 50000, xrp_row (1 / 2)] [btc_row 50100, xrp_row (51 / 100)]) \<and>
   (\<exists>b\<in>set [btc_row 50000, xrp_row (1 / 2)]. \<exists>k\<in>set [btc_row 50100, xrp_row (51 / 100)].
      \<exists>price_a price_b.
           Symbol b = Symbol xrp_gainer \<and> Symbol k = Symbol xrp_gainer \<and>
           present (prices b ''USDT'') = Some price_a \<and>
           present (prices k ''USDT'') = Some price_b \<and>
           Binance_Price xrp_gainer = Fin price_a \<and> Kraken_Price xrp_gainer = Fin price_b \<and>
           (price_a < 1 \<or> price_b < 1) \<and> \<not> (1 \<le> price_a \<and> 1 \<le> price_b) \<and>
           Avg_Price xrp_gainer = Fin ((price_a + price_b) / 2) \<and>
           Price_Diff_Pct xrp_gainer =
             fl_mul (fl_div (Fin \<bar>price_a - price_b\<bar>) (Fin (min price_a price_b))) (Fin 100) \<and>
           (min price_a price_b \<noteq> 0 \<longrightarrow>
              Price_Diff_Pct xrp_gainer = Fin (\<bar>price_a - price_b\<bar> / min price_a price_b * 100)) \<and>
           (\<forall>t s m opp. score t s m price_a price_b = Inr [opp] \<longrightarrow>
              Price_Diff_Pct xrp_gainer = Price_Diff_Pct opp))"
proof -
  have mem: "xrp_gainer \<in> set (low_price_gainers_of_prices (stable_sort_desc Price_Diff_Pct)
       [btc_row 50000, xrp_row (1 / 2)] [btc_row 50100, xrp_row (51 / 100)])"
    by (simp add: xrp_gainers)
  from mem C8_low_price_rows[OF stable_sort_desc_promise mem] show ?thesis
    by (rule conjI)
qed

text \<open>C9: for every content of the exchanges' ticker dictionaries, no record that
  \<open>calculate_arbitrage_opportunities\<close> returns has its symbol as its market, and no row that
  \<open>get_low_price_gainers\<close> returns has the reference market USDT as its symbol.\<close>

theorem C9_no_self_pairing:
  assumes "sort_values_descending Price_Diff_Pct sort_values"
    and "sort_values_descending Price_Diff_Pct sort_values'"
  shows "(\<forall>r\<in>set (fst (calculate_arbitrage_opportunities sort_values env self)).
            Symbol r \<noteq> Market r) \<and>
         (\<forall>g\<in>set (get_low_price_gainers sort_values' env). Symbol g \<noteq> ''USDT'')"
proof (intro conjI ballI)
  fix r
  assume r: "r \<in> set (fst (calculate_arbitrage_opportunities sort_values env self))"
  obtain B K where f: "fetch_all_prices env = (B, K)" by (cases "fetch_all_prices env")
  with r have "r \<in> set (fst (opportunities_of_prices sort_values (now env) self B K))"
    by (simp add: calculate_arbitrage_opportunities_def)
  moreover have "mset (fst (opportunities_of_prices sort_values (now env) self B K)) =
      mset (emitted_opportunities (now env) B K)"
    by (rule emitted_of_out[OF assms(1) surjective_pairing])
  ultimately have "r \<in> set (emitted_opportunities (now env) B K)"
    by (metis set_mset_mset)
  then show "Symbol r \<noteq> Market r"
    by (rule emitted_not_self)
next
  fix g
  assume g: "g \<in> set (get_low_price_gainers sort_values' env)"
  let ?B = "binance_get_top_crypto_prices (binance_tickers env) TOP_CRYPTOS MARKETS"
  let ?K = "kraken_get_top_crypto_prices (kraken_tickers env) TOP_CRYPTOS MARKETS"
  from g have "g \<in> set (low_price_gainers_of_prices sort_values' ?B ?K)"
    by (simp add: get_low_price_gainers_def fetch_all_prices_def)
  from gainers_mem[OF assms(2) this] obtain b a where b: "b \<in> set ?B"
    and sy: "Symbol b = Symbol g" and p: "present (prices b ''USDT'') = Some a"
    by blast
  from binance_table_self[OF b] have "prices b (Symbol b) = None" .
  with p sy show "Symbol g \<noteq> ''USDT''"
    by auto
qed

theorem C9_no_self_pairing_witness:
  "fst (calculate_arbitrage_opportunities (stable_sort_desc Price_Diff_Pct) example_exchanges
          new_calculator) =
     [xrp_opportunity, btc_opportunity 50000 50100 (2 / 10)] \<and>
   Symbol xrp_opportunity \<noteq> Market xrp_opportunity \<and>
   Symbol (btc_opportunity 50000 50100 (2 / 10)) \<noteq> Market (btc_opportunity 50000 50100 (2 / 10)) \<and>
   get_low_price_gainers (stable_sort_desc Price_Diff_Pct) example_exchanges = [xrp_gainer] \<and>
   Symbol xrp_gainer \<noteq> ''USDT''"
  using C9_no_self_pairing[OF stable_sort_desc_promise stable_sort_desc_promise,
      where env = example_exchanges and self = new_calculator]
    example_opportunities example_gainers
  by simp





end
